theory Spec2Isabelle
  imports Main "HOL-Library.Word"
begin

unbundle bit_operations_syntax

section \<open>Machine types and the constants of \<open>elf.h\<close>\<close>

text \<open>
  \<open>GumAddress\<close> is \<open>guint64\<close>. Pointers and \<open>gsize\<close> values are kept in 64-bit words;
  on a host whose pointers are four bytes wide they are truncated to their low 32 bits
  whenever the C code stores them (\<open>to_gsize\<close>).
\<close>

type_synonym GumAddress = "64 word"
type_synonym gpointer = "64 word"
type_synonym gsize = "64 word"

text \<open>
  The host process: the width of its pointers and its memory, read at the four widths the
  code uses (a C lvalue read of \<open>guchar\<close>, \<open>Elf64_Half\<close>, \<open>Elf64_Word\<close>, \<open>Elf64_Xword\<close>).
\<close>

record host =
  sizeof_gpointer :: nat
  load8 :: "gpointer \<Rightarrow> 8 word"
  load16 :: "gpointer \<Rightarrow> 16 word"
  load32 :: "gpointer \<Rightarrow> 32 word"
  load64 :: "gpointer \<Rightarrow> 64 word"

definition to_gsize :: "host \<Rightarrow> 64 word \<Rightarrow> gsize" where
  "to_gsize h w = (if sizeof_gpointer h = 4 then w AND mask 32 else w)"

definition GSIZE_TO_POINTER :: "host \<Rightarrow> 64 word \<Rightarrow> gpointer" where
  "GSIZE_TO_POINTER h w = to_gsize h w"

definition NULL :: gpointer where "NULL = 0"

definition ET_REL :: "16 word" where "ET_REL = 1"
definition ET_EXEC :: "16 word" where "ET_EXEC = 2"
definition ET_DYN :: "16 word" where "ET_DYN = 3"

definition PT_LOAD :: "32 word" where "PT_LOAD = 1"
definition PT_DYNAMIC :: "32 word" where "PT_DYNAMIC = 2"

definition DT_NEEDED :: "64 word" where "DT_NEEDED = 1"
definition DT_HASH :: "64 word" where "DT_HASH = 4"
definition DT_STRTAB :: "64 word" where "DT_STRTAB = 5"
definition DT_SYMTAB :: "64 word" where "DT_SYMTAB = 6"
definition DT_SYMENT :: "64 word" where "DT_SYMENT = 11"

definition SHT_SYMTAB :: "32 word" where "SHT_SYMTAB = 2"
definition SHN_UNDEF :: gsize where "SHN_UNDEF = 0"

definition STT_OBJECT :: "8 word" where "STT_OBJECT = 1"
definition STT_FUNC :: "8 word" where "STT_FUNC = 2"
definition STB_LOCAL :: "8 word" where "STB_LOCAL = 0"
definition STB_GLOBAL :: "8 word" where "STB_GLOBAL = 1"
definition STB_WEAK :: "8 word" where "STB_WEAK = 2"

definition GELF_ST_TYPE :: "8 word \<Rightarrow> 8 word" where
  "GELF_ST_TYPE info = info AND 0xf"

definition GELF_ST_BIND :: "8 word \<Rightarrow> 8 word" where
  "GELF_ST_BIND info = drop_bit 4 info"

section \<open>The image object\<close>

text \<open>
  What libelf hands out for a parsed image: the ELF header, the program header that
  \<open>gelf_getphdr\<close> stores for an index, and the sections that \<open>elf_nextscn\<close> walks, each with
  its header and the symbols \<open>gelf_getsym\<close> decodes from its data; \<open>elf_strptr\<close> is the
  string lookup by section index and offset.
\<close>

record GElf_Ehdr =
  e_type :: "16 word"
  e_phnum :: "16 word"

record GElf_Phdr =
  p_type :: "32 word"
  p_offset :: "64 word"
  p_vaddr :: "64 word"
  p_memsz :: "64 word"

record GElf_Shdr =
  sh_type :: "32 word"
  sh_size :: "64 word"
  sh_entsize :: "64 word"
  sh_link :: "32 word"

record GElf_Sym =
  st_name :: "32 word"
  st_info :: "8 word"
  st_shndx :: "16 word"
  st_value :: "64 word"

record Elf_Scn =
  gelf_getshdr :: GElf_Shdr
  gelf_getsym :: "32 word \<Rightarrow> GElf_Sym"

record Elf =
  gelf_getehdr :: GElf_Ehdr
  gelf_getphdr :: "16 word \<Rightarrow> GElf_Phdr"
  elf_sections :: "Elf_Scn list"
  elf_strptr :: "32 word \<Rightarrow> 32 word \<Rightarrow> gpointer"

record GumElfModule =
  valid :: bool
  name :: "string option"
  path :: string
  file_data :: "8 word list option"
  file_size :: nat
  elf :: "Elf option"
  ehdr :: "GElf_Ehdr option"
  base_address :: GumAddress
  preferred_address :: GumAddress

section \<open>Address translation\<close>

definition gum_elf_module_resolve_virtual_address ::
    "GumElfModule \<Rightarrow> GumAddress \<Rightarrow> GumAddress" where
  "gum_elf_module_resolve_virtual_address self address =
     base_address self + (address - preferred_address self)"

section \<open>Construction\<close>

text \<open>
  Undefined behaviour of the C program is a value: reading through the null \<open>ehdr\<close>
  pointer, reading the program header that a failed \<open>gelf_getphdr\<close> left unset, and
  the integer division by a zero \<open>sh_entsize\<close>.
\<close>

datatype fault = NullDereference | UninitializedRead | DivideByZero

text \<open>
  The collaborators of the constructor: \<open>g_path_get_basename\<close>; \<open>open\<close> with \<open>lseek\<close>
  (\<open>None\<close> when \<open>open\<close> returns -1, else the bytes of the file); \<open>mmap\<close> (\<open>False\<close> for
  \<open>MAP_FAILED\<close>); and libelf's \<open>elf_memory\<close> (\<open>None\<close> for a null descriptor).
\<close>

record os =
  g_path_get_basename :: "string \<Rightarrow> string"
  os_open :: "string \<Rightarrow> 8 word list option"
  os_mmap :: "8 word list \<Rightarrow> bool"
  elf_memory :: "8 word list \<Rightarrow> Elf option"

text \<open>
  The loops of the code count an unsigned index up to a bound with \<open>!=\<close>; the distance
  to the bound, taken modulo the width, shrinks with every round.
\<close>

lemma word_loop_measure:
  fixes i n :: "'a::len word"
  assumes "i \<noteq> n"
  shows "unat (n - (i + 1)) < unat (n - i)"
proof -
  have nz: "n - i \<noteq> 0" using assms by simp
  have "n - (i + 1) = (n - i) - 1" by simp
  moreover have "unat ((n - i) - 1) = unat (n - i) - 1"
    using nz by (rule unat_minus_one)
  ultimately have "unat (n - (i + 1)) = unat (n - i) - 1" by (simp only:)
  moreover have "0 < unat (n - i)" using nz by (simp add: unat_gt_0)
  ultimately show ?thesis by simp
qed

lemma word_index_succ:
  fixes i n :: "'a::len word"
  assumes "i < n"
  shows "unat (i + 1) = Suc (unat i)"
proof -
  have a: "unat i < unat n" using assms by (simp add: word_less_nat_alt)
  have b: "unat n < 2 ^ LENGTH('a)" by (rule unsigned_less)
  from a b have "unat i + 1 < 2 ^ LENGTH('a)" by linarith
  then show ?thesis by (simp add: unat_word_ariths)
qed

function preferred_address_loop :: "Elf \<Rightarrow> 16 word \<Rightarrow> 16 word \<Rightarrow> GumAddress" where
  "preferred_address_loop e header_count header_index =
     (if header_index \<noteq> header_count then
        (let phdr = gelf_getphdr e header_index in
         if p_offset phdr = 0 then p_vaddr phdr
         else preferred_address_loop e header_count (header_index + 1))
      else 0)"
  by pat_completeness auto
termination
  by (relation "measure (\<lambda>(e, header_count, header_index). unat (header_count - header_index))")
     (simp_all add: word_loop_measure)

declare preferred_address_loop.simps [simp del]

definition gum_elf_module_compute_preferred_address :: "GumElfModule \<Rightarrow> fault + GumAddress" where
  "gum_elf_module_compute_preferred_address self =
     (case ehdr self of
        None \<Rightarrow> Inl NullDereference
      | Some eh \<Rightarrow>
          (case elf self of
             None \<Rightarrow> if e_phnum eh = 0 then Inr 0 else Inl UninitializedRead
           | Some e \<Rightarrow> Inr (preferred_address_loop e (e_phnum eh) 0)))"

definition gum_elf_module_constructed :: "os \<Rightarrow> GumElfModule \<Rightarrow> fault + GumElfModule" where
  "gum_elf_module_constructed sys self0 =
     (let self1 = (if name self0 = None
                   then self0\<lparr>name := Some (g_path_get_basename sys (path self0))\<rparr>
                   else self0)
      in case os_open sys (path self1) of
           None \<Rightarrow> Inr (self1\<lparr>valid := False\<rparr>)
         | Some bytes \<Rightarrow>
             (let self2 = self1\<lparr>file_size := length bytes\<rparr> in
              if \<not> os_mmap sys bytes
              then Inr (self2\<lparr>file_data := None, valid := False\<rparr>)
              else
                (let self3 = self2\<lparr>file_data := Some bytes, elf := elf_memory sys bytes\<rparr> in
                 case elf self3 of
                   None \<Rightarrow> Inr (self3\<lparr>valid := False\<rparr>)
                 | Some e \<Rightarrow>
                     (let self4 = self3\<lparr>ehdr := Some (gelf_getehdr e)\<rparr>;
                          type = e_type (gelf_getehdr e)
                      in if type \<noteq> ET_EXEC \<and> type \<noteq> ET_DYN
                         then Inr (self4\<lparr>valid := False\<rparr>)
                         else
                           (case gum_elf_module_compute_preferred_address self4 of
                              Inl flt \<Rightarrow> Inl flt
                            | Inr a \<Rightarrow> Inr (self4\<lparr>preferred_address := a, valid := True\<rparr>))))))"

text \<open>
  \<open>g_object_new\<close> with the two properties the caller sets; every other field of the fresh
  instance is zero.
\<close>

definition g_object_new :: "string \<Rightarrow> GumAddress \<Rightarrow> GumElfModule" where
  "g_object_new p b =
     \<lparr>valid = False, name = None, path = p, file_data = None, file_size = 0,
      elf = None, ehdr = None, base_address = b, preferred_address = 0\<rparr>"

definition gum_elf_module_new_from_memory ::
    "os \<Rightarrow> string \<Rightarrow> GumAddress \<Rightarrow> fault + GumElfModule option" where
  "gum_elf_module_new_from_memory sys p b =
     (case gum_elf_module_constructed sys (g_object_new p b) of
        Inl flt \<Rightarrow> Inl flt
      | Inr module \<Rightarrow> if \<not> valid module then Inr None else Inr (Some module))"

section \<open>Structural locators\<close>

text \<open>
  Modelled from the spec: \<open>GumMemoryRange\<close> is declared in \<open>gum/gum.h\<close>, which is not among
  the sources; the specification describes the result of the dynamic-segment locator as
  a (virtual-address, size) range. The code assigns \<open>p_vaddr\<close> and \<open>p_memsz\<close> to its two
  fields; the size is taken to be a \<open>gsize\<close>.
\<close>

record GumMemoryRange =
  range_base_address :: GumAddress
  range_size :: gsize

function find_dynamic_range_loop ::
    "host \<Rightarrow> Elf \<Rightarrow> 16 word \<Rightarrow> 16 word \<Rightarrow> GumMemoryRange option" where
  "find_dynamic_range_loop h e header_count header_index =
     (if header_index \<noteq> header_count then
        (let phdr = gelf_getphdr e header_index in
         if p_type phdr = PT_DYNAMIC
         then Some \<lparr>range_base_address = p_vaddr phdr,
                    range_size = to_gsize h (p_memsz phdr)\<rparr>
         else find_dynamic_range_loop h e header_count (header_index + 1))
      else None)"
  by pat_completeness auto
termination
  by (relation "measure (\<lambda>(h, e, header_count, header_index). unat (header_count - header_index))")
     (simp_all add: word_loop_measure)

declare find_dynamic_range_loop.simps [simp del]

definition gum_elf_module_find_dynamic_range ::
    "host \<Rightarrow> GumElfModule \<Rightarrow> fault + GumMemoryRange option" where
  "gum_elf_module_find_dynamic_range h self =
     (case ehdr self of
        None \<Rightarrow> Inl NullDereference
      | Some eh \<Rightarrow>
          (case elf self of
             None \<Rightarrow> if e_phnum eh = 0 then Inr None else Inl UninitializedRead
           | Some e \<Rightarrow> Inr (find_dynamic_range_loop h e (e_phnum eh) 0)))"

text \<open>
  \<open>elf_nextscn\<close> walks the sections in order and yields nothing for a null descriptor.
\<close>

definition gum_elf_module_find_section_header ::
    "GumElfModule \<Rightarrow> 32 word \<Rightarrow> Elf_Scn option" where
  "gum_elf_module_find_section_header self type =
     (case elf self of
        None \<Rightarrow> None
      | Some e \<Rightarrow> find (\<lambda>cur. sh_type (gelf_getshdr cur) = type) (elf_sections e))"

section \<open>Dynamic entries\<close>

text \<open>
  A callback receives a record and the caller's \<open>user_data\<close>; it returns whether to carry
  on, and the \<open>user_data\<close> as it left it.
\<close>

record GumElfDynamicEntryDetails =
  dyn_type :: "64 word"
  dyn_value :: "64 word"

text \<open>
  \<open>Elf32_Dyn\<close> is a signed 32-bit tag and a 32-bit value, \<open>Elf64_Dyn\<close> a 64-bit tag and a
  64-bit value.
\<close>

definition read_Elf32_Dyn :: "host \<Rightarrow> gpointer \<Rightarrow> GumElfDynamicEntryDetails" where
  "read_Elf32_Dyn h entry =
     \<lparr>dyn_type = scast (load32 h entry),
      dyn_value = ucast (load32 h (to_gsize h (entry + 4)))\<rparr>"

definition read_Elf64_Dyn :: "host \<Rightarrow> gpointer \<Rightarrow> GumElfDynamicEntryDetails" where
  "read_Elf64_Dyn h entry =
     \<lparr>dyn_type = load64 h entry,
      dyn_value = load64 h (to_gsize h (entry + 8))\<rparr>"

function dynamic_entries_loop ::
    "(32 word \<Rightarrow> GumElfDynamicEntryDetails)
      \<Rightarrow> (GumElfDynamicEntryDetails \<Rightarrow> 'u \<Rightarrow> bool \<times> 'u)
      \<Rightarrow> 32 word \<Rightarrow> 32 word \<Rightarrow> 'u \<Rightarrow> 'u" where
  "dynamic_entries_loop entries func entry_count entry_index user_data =
     (if entry_index \<noteq> entry_count then
        (case func (entries entry_index) user_data of
           (carry_on, user_data') \<Rightarrow>
             if \<not> carry_on then user_data'
             else dynamic_entries_loop entries func entry_count (entry_index + 1) user_data')
      else user_data)"
  by pat_completeness auto
termination
  by (relation "measure (\<lambda>(entries, func, entry_count, entry_index, user_data).
                  unat (entry_count - entry_index))")
     (simp_all add: word_loop_measure)

declare dynamic_entries_loop.simps [simp del]

definition gum_elf_module_enumerate_dynamic_entries ::
    "host \<Rightarrow> GumElfModule \<Rightarrow> (GumElfDynamicEntryDetails \<Rightarrow> 'u \<Rightarrow> bool \<times> 'u) \<Rightarrow> 'u
      \<Rightarrow> fault + 'u" where
  "gum_elf_module_enumerate_dynamic_entries h self func user_data =
     (case gum_elf_module_find_dynamic_range h self of
        Inl flt \<Rightarrow> Inl flt
      | Inr None \<Rightarrow> Inr user_data
      | Inr (Some dynamic) \<Rightarrow>
          (let dynamic_begin = GSIZE_TO_POINTER h
                 (gum_elf_module_resolve_virtual_address self (range_base_address dynamic))
           in if sizeof_gpointer h = 4 then
                (let entry_count = (ucast (range_size dynamic div 8) :: 32 word) in
                 Inr (dynamic_entries_loop
                        (\<lambda>entry_index. read_Elf32_Dyn h
                           (to_gsize h (dynamic_begin + ucast entry_index * 8)))
                        func entry_count 0 user_data))
              else
                (let entry_count = (ucast (range_size dynamic div 16) :: 32 word) in
                 Inr (dynamic_entries_loop
                        (\<lambda>entry_index. read_Elf64_Dyn h
                           (to_gsize h (dynamic_begin + ucast entry_index * 16)))
                        func entry_count 0 user_data))))"

section \<open>Symbols\<close>

record GumElfSymbolDetails =
  sym_name :: gpointer
  sym_address :: GumAddress
  sym_type :: "8 word"
  sym_bind :: "8 word"
  sym_section_header_index :: gsize

record GumElfStoreSymtabParamsContext =
  pending :: "32 word"
  symtab_entries :: gpointer
  symtab_entry_size :: gsize
  symtab_entry_count :: gsize
  symtab_strtab :: gpointer
  symtab_module :: GumElfModule

definition gum_store_symtab_params ::
    "host \<Rightarrow> GumElfDynamicEntryDetails \<Rightarrow> GumElfStoreSymtabParamsContext
      \<Rightarrow> bool \<times> GumElfStoreSymtabParamsContext" where
  "gum_store_symtab_params h details ctx =
     (let ctx' =
        (if dyn_type details = DT_SYMTAB then
           ctx\<lparr>symtab_entries := GSIZE_TO_POINTER h
                  (gum_elf_module_resolve_virtual_address (symtab_module ctx) (dyn_value details)),
               pending := pending ctx - 1\<rparr>
         else if dyn_type details = DT_SYMENT then
           ctx\<lparr>symtab_entry_size := to_gsize h (dyn_value details),
               pending := pending ctx - 1\<rparr>
         else if dyn_type details = DT_HASH then
           (let hash_params = GSIZE_TO_POINTER h
                  (gum_elf_module_resolve_virtual_address (symtab_module ctx) (dyn_value details));
                nchain = load32 h (to_gsize h (hash_params + 4))
            in ctx\<lparr>symtab_entry_count := ucast nchain, pending := pending ctx - 1\<rparr>)
         else if dyn_type details = DT_STRTAB then
           ctx\<lparr>symtab_strtab := GSIZE_TO_POINTER h
                  (gum_elf_module_resolve_virtual_address (symtab_module ctx) (dyn_value details)),
               pending := pending ctx - 1\<rparr>
         else ctx)
      in (pending ctx' \<noteq> 0, ctx'))"

text \<open>
  The two symbol layouts: \<open>Elf32_Sym\<close> has \<open>st_value\<close> at offset 4, \<open>st_info\<close> at 12 and
  \<open>st_shndx\<close> at 14; \<open>Elf64_Sym\<close> has \<open>st_info\<close> at 4, \<open>st_shndx\<close> at 6 and \<open>st_value\<close> at 8.
\<close>

definition read_Elf32_Sym :: "host \<Rightarrow> gpointer \<Rightarrow> GElf_Sym" where
  "read_Elf32_Sym h entry =
     \<lparr>st_name = load32 h entry,
      st_info = load8 h (to_gsize h (entry + 12)),
      st_shndx = load16 h (to_gsize h (entry + 14)),
      st_value = ucast (load32 h (to_gsize h (entry + 4)))\<rparr>"

definition read_Elf64_Sym :: "host \<Rightarrow> gpointer \<Rightarrow> GElf_Sym" where
  "read_Elf64_Sym h entry =
     \<lparr>st_name = load32 h entry,
      st_info = load8 h (to_gsize h (entry + 4)),
      st_shndx = load16 h (to_gsize h (entry + 6)),
      st_value = load64 h (to_gsize h (entry + 8))\<rparr>"

text \<open>The five assignments to \<open>details\<close>, the same in every branch, given the name pointer.\<close>

definition symbol_details :: "GumElfModule \<Rightarrow> gpointer \<Rightarrow> GElf_Sym \<Rightarrow> GumElfSymbolDetails" where
  "symbol_details self name_ptr symb =
     \<lparr>sym_name = name_ptr,
      sym_address = gum_elf_module_resolve_virtual_address self (st_value symb),
      sym_type = GELF_ST_TYPE (st_info symb),
      sym_bind = GELF_ST_BIND (st_info symb),
      sym_section_header_index = ucast (st_shndx symb)\<rparr>"

definition dynamic_symbol_at ::
    "host \<Rightarrow> GumElfModule \<Rightarrow> GumElfStoreSymtabParamsContext \<Rightarrow> gsize \<Rightarrow> GumElfSymbolDetails" where
  "dynamic_symbol_at h self ctx entry_index =
     (let entry = to_gsize h (symtab_entries ctx + entry_index * symtab_entry_size ctx) in
      if sizeof_gpointer h = 4 then
        (let symb = read_Elf32_Sym h entry in
         symbol_details self (to_gsize h (symtab_strtab ctx + ucast (st_name symb))) symb)
      else
        (let symb = read_Elf64_Sym h entry in
         symbol_details self (to_gsize h (symtab_strtab ctx + ucast (st_name symb))) symb))"

function dynamic_symbols_loop ::
    "(gsize \<Rightarrow> GumElfSymbolDetails) \<Rightarrow> (GumElfSymbolDetails \<Rightarrow> 'u \<Rightarrow> bool \<times> 'u)
      \<Rightarrow> gsize \<Rightarrow> gsize \<Rightarrow> 'u \<Rightarrow> 'u" where
  "dynamic_symbols_loop symbol_at func entry_count entry_index user_data =
     (if entry_index < entry_count then
        (case func (symbol_at entry_index) user_data of
           (carry_on, user_data') \<Rightarrow>
             if \<not> carry_on then user_data'
             else dynamic_symbols_loop symbol_at func entry_count (entry_index + 1) user_data')
      else user_data)"
  by pat_completeness auto
termination
  by (relation "measure (\<lambda>(symbol_at, func, entry_count, entry_index, user_data).
                  unat entry_count - unat entry_index)")
     (simp_all add: word_index_succ, simp add: word_less_nat_alt)

declare dynamic_symbols_loop.simps [simp del]

definition gum_elf_module_enumerate_dynamic_symbols ::
    "host \<Rightarrow> GumElfModule \<Rightarrow> (GumElfSymbolDetails \<Rightarrow> 'u \<Rightarrow> bool \<times> 'u) \<Rightarrow> 'u \<Rightarrow> fault + 'u" where
  "gum_elf_module_enumerate_dynamic_symbols h self func user_data =
     (let ctx0 = \<lparr>pending = 4, symtab_entries = NULL, symtab_entry_size = 0,
                  symtab_entry_count = 0, symtab_strtab = NULL, symtab_module = self\<rparr>
      in case gum_elf_module_enumerate_dynamic_entries h self (gum_store_symtab_params h) ctx0 of
           Inl flt \<Rightarrow> Inl flt
         | Inr ctx \<Rightarrow>
             if pending ctx \<noteq> 0 then Inr user_data
             else Inr (dynamic_symbols_loop (dynamic_symbol_at h self ctx) func
                         (symtab_entry_count ctx) 1 user_data))"

function section_symbols_loop ::
    "(32 word \<Rightarrow> GumElfSymbolDetails) \<Rightarrow> (GumElfSymbolDetails \<Rightarrow> 'u \<Rightarrow> bool \<times> 'u)
      \<Rightarrow> 32 word \<Rightarrow> 32 word \<Rightarrow> bool \<Rightarrow> 'u \<Rightarrow> 'u" where
  "section_symbols_loop symbol_at func symbol_count symbol_index carry_on user_data =
     (if symbol_index \<noteq> symbol_count \<and> carry_on then
        (case func (symbol_at symbol_index) user_data of
           (carry_on', user_data') \<Rightarrow>
             section_symbols_loop symbol_at func symbol_count (symbol_index + 1)
               carry_on' user_data')
      else user_data)"
  by pat_completeness auto
termination
  by (relation "measure (\<lambda>(symbol_at, func, symbol_count, symbol_index, carry_on, user_data).
                  unat (symbol_count - symbol_index))")
     (simp_all add: word_loop_measure)

declare section_symbols_loop.simps [simp del]

definition gum_elf_module_enumerate_symbols_in_section ::
    "GumElfModule \<Rightarrow> 32 word \<Rightarrow> (GumElfSymbolDetails \<Rightarrow> 'u \<Rightarrow> bool \<times> 'u) \<Rightarrow> 'u
      \<Rightarrow> fault + 'u" where
  "gum_elf_module_enumerate_symbols_in_section self section func user_data =
     (case gum_elf_module_find_section_header self section of
        None \<Rightarrow> Inr user_data
      | Some scn \<Rightarrow>
          (let shdr = gelf_getshdr scn in
           if sh_entsize shdr = 0 then Inl DivideByZero
           else
             (let symbol_count = (ucast (sh_size shdr div sh_entsize shdr) :: 32 word) in
              Inr (section_symbols_loop
                     (\<lambda>symbol_index.
                        (let symb = gelf_getsym scn symbol_index in
                         symbol_details self
                           (case elf self of
                              None \<Rightarrow> NULL
                            | Some e \<Rightarrow> elf_strptr e (sh_link shdr) (st_name symb))
                           symb))
                     func symbol_count 0 True user_data))))"

definition gum_elf_module_enumerate_symbols ::
    "GumElfModule \<Rightarrow> (GumElfSymbolDetails \<Rightarrow> 'u \<Rightarrow> bool \<times> 'u) \<Rightarrow> 'u \<Rightarrow> fault + 'u" where
  "gum_elf_module_enumerate_symbols self func user_data =
     gum_elf_module_enumerate_symbols_in_section self SHT_SYMTAB func user_data"

section \<open>Derived views\<close>

record GumElfDependencyDetails =
  dep_name :: gpointer

record 'u GumElfEnumerateDepsContext =
  deps_func :: "GumElfDependencyDetails \<Rightarrow> 'u \<Rightarrow> bool \<times> 'u"
  deps_user_data :: 'u
  deps_module :: GumElfModule
  deps_strtab :: gpointer

definition gum_store_strtab ::
    "host \<Rightarrow> GumElfDynamicEntryDetails \<Rightarrow> 'u GumElfEnumerateDepsContext
      \<Rightarrow> bool \<times> 'u GumElfEnumerateDepsContext" where
  "gum_store_strtab h details ctx =
     (if dyn_type details \<noteq> DT_STRTAB then (True, ctx)
      else (False,
            ctx\<lparr>deps_strtab := GSIZE_TO_POINTER h
                  (gum_elf_module_resolve_virtual_address (deps_module ctx)
                     (dyn_value details))\<rparr>))"

definition gum_emit_each_needed ::
    "host \<Rightarrow> GumElfDynamicEntryDetails \<Rightarrow> 'u GumElfEnumerateDepsContext
      \<Rightarrow> bool \<times> 'u GumElfEnumerateDepsContext" where
  "gum_emit_each_needed h details ctx =
     (if dyn_type details \<noteq> DT_NEEDED then (True, ctx)
      else
        (let d = \<lparr>dep_name = to_gsize h (deps_strtab ctx + dyn_value details)\<rparr> in
         case deps_func ctx d (deps_user_data ctx) of
           (carry_on, user_data') \<Rightarrow> (carry_on, ctx\<lparr>deps_user_data := user_data'\<rparr>)))"

definition gum_elf_module_enumerate_dependencies ::
    "host \<Rightarrow> GumElfModule \<Rightarrow> (GumElfDependencyDetails \<Rightarrow> 'u \<Rightarrow> bool \<times> 'u) \<Rightarrow> 'u
      \<Rightarrow> fault + 'u" where
  "gum_elf_module_enumerate_dependencies h self func user_data =
     (let ctx0 = \<lparr>deps_func = func, deps_user_data = user_data, deps_module = self,
                  deps_strtab = NULL\<rparr>
      in case gum_elf_module_enumerate_dynamic_entries h self (gum_store_strtab h) ctx0 of
           Inl flt \<Rightarrow> Inl flt
         | Inr ctx1 \<Rightarrow>
             if deps_strtab ctx1 = NULL then Inr (deps_user_data ctx1)
             else
               (case gum_elf_module_enumerate_dynamic_entries h self
                       (gum_emit_each_needed h) ctx1 of
                  Inl flt \<Rightarrow> Inl flt
                | Inr ctx2 \<Rightarrow> Inr (deps_user_data ctx2)))"

text \<open>
  Modelled from the spec: the import and export records and the export type are declared
  in \<open>gum/gum.h\<close>, which is not among the sources; the specification describes an import as
  reported with no address and no originating module. The fields are those the code
  assigns.
\<close>

datatype GumExportType = GUM_EXPORT_FUNCTION | GUM_EXPORT_VARIABLE

record GumImportDetails =
  imp_type :: GumExportType
  imp_name :: gpointer
  imp_module :: gpointer
  imp_address :: GumAddress

record GumExportDetails =
  exp_type :: GumExportType
  exp_name :: gpointer
  exp_address :: GumAddress

record 'u GumElfEnumerateImportsContext =
  imports_func :: "GumImportDetails \<Rightarrow> 'u \<Rightarrow> bool \<times> 'u"
  imports_user_data :: 'u

record 'u GumElfEnumerateExportsContext =
  exports_func :: "GumExportDetails \<Rightarrow> 'u \<Rightarrow> bool \<times> 'u"
  exports_user_data :: 'u

definition gum_emit_elf_import ::
    "GumElfSymbolDetails \<Rightarrow> 'u GumElfEnumerateImportsContext
      \<Rightarrow> bool \<times> 'u GumElfEnumerateImportsContext" where
  "gum_emit_elf_import details ctx =
     (if sym_section_header_index details = SHN_UNDEF \<and>
         (sym_type details = STT_FUNC \<or> sym_type details = STT_OBJECT)
      then
        (let d = \<lparr>imp_type = (if sym_type details = STT_FUNC
                                then GUM_EXPORT_FUNCTION else GUM_EXPORT_VARIABLE),
                    imp_name = sym_name details,
                    imp_module = NULL,
                    imp_address = 0\<rparr>
         in case imports_func ctx d (imports_user_data ctx) of
              (carry_on, user_data') \<Rightarrow>
                if \<not> carry_on then (False, ctx\<lparr>imports_user_data := user_data'\<rparr>)
                else (True, ctx\<lparr>imports_user_data := user_data'\<rparr>))
      else (True, ctx))"

definition gum_elf_module_enumerate_imports ::
    "host \<Rightarrow> GumElfModule \<Rightarrow> (GumImportDetails \<Rightarrow> 'u \<Rightarrow> bool \<times> 'u) \<Rightarrow> 'u \<Rightarrow> fault + 'u" where
  "gum_elf_module_enumerate_imports h self func user_data =
     (let ctx = \<lparr>imports_func = func, imports_user_data = user_data\<rparr> in
      case gum_elf_module_enumerate_dynamic_symbols h self gum_emit_elf_import ctx of
        Inl flt \<Rightarrow> Inl flt
      | Inr ctx' \<Rightarrow> Inr (imports_user_data ctx'))"

definition gum_emit_elf_export ::
    "GumElfSymbolDetails \<Rightarrow> 'u GumElfEnumerateExportsContext
      \<Rightarrow> bool \<times> 'u GumElfEnumerateExportsContext" where
  "gum_emit_elf_export details ctx =
     (if sym_section_header_index details \<noteq> SHN_UNDEF \<and>
         (sym_type details = STT_FUNC \<or> sym_type details = STT_OBJECT) \<and>
         (sym_bind details = STB_GLOBAL \<or> sym_bind details = STB_WEAK)
      then
        (let d = \<lparr>exp_type = (if sym_type details = STT_FUNC
                                then GUM_EXPORT_FUNCTION else GUM_EXPORT_VARIABLE),
                    exp_name = sym_name details,
                    exp_address = sym_address details\<rparr>
         in case exports_func ctx d (exports_user_data ctx) of
              (carry_on, user_data') \<Rightarrow>
                if \<not> carry_on then (False, ctx\<lparr>exports_user_data := user_data'\<rparr>)
                else (True, ctx\<lparr>exports_user_data := user_data'\<rparr>))
      else (True, ctx))"

definition gum_elf_module_enumerate_exports ::
    "host \<Rightarrow> GumElfModule \<Rightarrow> (GumExportDetails \<Rightarrow> 'u \<Rightarrow> bool \<times> 'u) \<Rightarrow> 'u \<Rightarrow> fault + 'u" where
  "gum_elf_module_enumerate_exports h self func user_data =
     (let ctx = \<lparr>exports_func = func, exports_user_data = user_data\<rparr> in
      case gum_elf_module_enumerate_dynamic_symbols h self gum_emit_elf_export ctx of
        Inl flt \<Rightarrow> Inl flt
      | Inr ctx' \<Rightarrow> Inr (exports_user_data ctx'))"

section \<open>The enumeration protocol and the tables\<close>

text \<open>
  The specification describes every enumeration as a push-style sequence: the records of
  a table are handed to the callback in order until it answers stop. \<open>deliver\<close> is that
  description; the loops of the code are compared with it below.
\<close>

fun deliver :: "('r \<Rightarrow> 'u \<Rightarrow> bool \<times> 'u) \<Rightarrow> 'r list \<Rightarrow> 'u \<Rightarrow> 'u" where
  "deliver func [] user_data = user_data"
| "deliver func (r # rs) user_data =
     (case func r user_data of
        (carry_on, user_data') \<Rightarrow> if carry_on then deliver func rs user_data' else user_data')"

text \<open>
  The records a callback is invoked on, each with the answer it gave: \<open>trace\<close> as a
  function of the table, \<open>recording\<close> as a wrapper that makes any callback keep that log
  in its \<open>user_data\<close>.
\<close>

fun trace :: "('r \<Rightarrow> 'u \<Rightarrow> bool \<times> 'u) \<Rightarrow> 'r list \<Rightarrow> 'u \<Rightarrow> ('r \<times> bool) list" where
  "trace func [] user_data = []"
| "trace func (r # rs) user_data =
     (case func r user_data of
        (carry_on, user_data') \<Rightarrow>
          (r, carry_on) # (if carry_on then trace func rs user_data' else []))"

definition recording ::
    "('r \<Rightarrow> 'u \<Rightarrow> bool \<times> 'u) \<Rightarrow> 'r \<Rightarrow> 'u \<times> ('r \<times> bool) list
      \<Rightarrow> bool \<times> ('u \<times> ('r \<times> bool) list)" where
  "recording func r s =
     (case func r (fst s) of
        (carry_on, user_data') \<Rightarrow> (carry_on, (user_data', snd s @ [(r, carry_on)])))"

text \<open>The indices \<open>i, i + 1, ...\<close> up to but excluding \<open>n\<close>, modulo the width.\<close>

definition word_range :: "'a::len word \<Rightarrow> 'a word \<Rightarrow> 'a word list" where
  "word_range i n = map (\<lambda>k. i + of_nat k) [0..<unat (n - i)]"

definition program_headers :: "Elf \<Rightarrow> GElf_Phdr list" where
  "program_headers e = map (gelf_getphdr e) (word_range 0 (e_phnum (gelf_getehdr e)))"

text \<open>An image handed to a caller: flagged valid, with its descriptor and header set.\<close>

definition is_valid_image :: "GumElfModule \<Rightarrow> bool" where
  "is_valid_image self =
     (valid self \<and> (case elf self of
                      None \<Rightarrow> False
                    | Some e \<Rightarrow> ehdr self = Some (gelf_getehdr e)))"

definition has_dynamic_segment :: "GumElfModule \<Rightarrow> bool" where
  "has_dynamic_segment self =
     (case elf self of
        None \<Rightarrow> False
      | Some e \<Rightarrow> list_ex (\<lambda>phdr. p_type phdr = PT_DYNAMIC) (program_headers e))"

text \<open>
  The dynamic entries in on-disk order: the (tag, value) pairs of the first dynamic
  segment, read at the host's width from the translated start of the segment.
\<close>

definition dynamic_entry_table :: "host \<Rightarrow> GumElfModule \<Rightarrow> GumElfDynamicEntryDetails list" where
  "dynamic_entry_table h self =
     (case gum_elf_module_find_dynamic_range h self of
        Inr (Some dynamic) \<Rightarrow>
          (let dynamic_begin = GSIZE_TO_POINTER h
                 (gum_elf_module_resolve_virtual_address self (range_base_address dynamic))
           in if sizeof_gpointer h = 4 then
                map (\<lambda>entry_index. read_Elf32_Dyn h
                       (to_gsize h (dynamic_begin + ucast entry_index * 8)))
                    (word_range 0 (ucast (range_size dynamic div 8) :: 32 word))
              else
                map (\<lambda>entry_index. read_Elf64_Dyn h
                       (to_gsize h (dynamic_begin + ucast entry_index * 16)))
                    (word_range 0 (ucast (range_size dynamic div 16) :: 32 word)))
      | _ \<Rightarrow> [])"

text \<open>
  The four values of the dynamic symbol table as the pass over the dynamic entries
  leaves them, and the symbols from index 1 up to the entry count.
\<close>

definition symtab_params :: "host \<Rightarrow> GumElfModule \<Rightarrow> GumElfStoreSymtabParamsContext" where
  "symtab_params h self =
     deliver (gum_store_symtab_params h) (dynamic_entry_table h self)
       \<lparr>pending = 4, symtab_entries = NULL, symtab_entry_size = 0,
        symtab_entry_count = 0, symtab_strtab = NULL, symtab_module = self\<rparr>"

definition dynamic_symbol_table :: "host \<Rightarrow> GumElfModule \<Rightarrow> GumElfSymbolDetails list" where
  "dynamic_symbol_table h self =
     (let ctx = symtab_params h self in
      if pending ctx \<noteq> 0 then []
      else map (\<lambda>k. dynamic_symbol_at h self ctx (of_nat k))
             [1..<unat (symtab_entry_count ctx)])"

definition section_symbol_table :: "GumElfModule \<Rightarrow> GumElfSymbolDetails list" where
  "section_symbol_table self =
     (case gum_elf_module_find_section_header self SHT_SYMTAB of
        None \<Rightarrow> []
      | Some scn \<Rightarrow>
          map (\<lambda>symbol_index.
                 symbol_details self
                   (case elf self of
                      None \<Rightarrow> NULL
                    | Some e \<Rightarrow> elf_strptr e (sh_link (gelf_getshdr scn))
                                 (st_name (gelf_getsym scn symbol_index)))
                   (gelf_getsym scn symbol_index))
              (word_range 0 (ucast (sh_size (gelf_getshdr scn)
                                      div sh_entsize (gelf_getshdr scn)) :: 32 word)))"

section \<open>Classification of symbols, in the words of the specification\<close>

text \<open>
  An import is a symbol whose defining section index is the undefined sentinel and whose
  type is function or object. An export is a symbol whose defining section index is not
  undefined, whose type is function or object, and whose binding is global or weak.
\<close>

definition is_import :: "GumElfSymbolDetails \<Rightarrow> bool" where
  "is_import s =
     (sym_section_header_index s = SHN_UNDEF
      \<and> (sym_type s = STT_FUNC \<or> sym_type s = STT_OBJECT))"

definition is_export :: "GumElfSymbolDetails \<Rightarrow> bool" where
  "is_export s =
     (sym_section_header_index s \<noteq> SHN_UNDEF
      \<and> (sym_type s = STT_FUNC \<or> sym_type s = STT_OBJECT)
      \<and> (sym_bind s = STB_GLOBAL \<or> sym_bind s = STB_WEAK))"

definition export_type_of :: "GumElfSymbolDetails \<Rightarrow> GumExportType" where
  "export_type_of s =
     (if sym_type s = STT_FUNC then GUM_EXPORT_FUNCTION else GUM_EXPORT_VARIABLE)"

definition import_of :: "GumElfSymbolDetails \<Rightarrow> GumImportDetails" where
  "import_of s =
     \<lparr>imp_type = export_type_of s, imp_name = sym_name s, imp_module = NULL, imp_address = 0\<rparr>"

definition export_of :: "GumElfSymbolDetails \<Rightarrow> GumExportDetails" where
  "export_of s =
     \<lparr>exp_type = export_type_of s, exp_name = sym_name s, exp_address = sym_address s\<rparr>"

text \<open>
  The dependency view in the words of the specification: the string-table pointer is
  that of the first string-table entry, translated to a runtime address, and every
  needed-library entry names the string at its value offset from that pointer.
\<close>

definition captured_strtab :: "host \<Rightarrow> GumElfModule \<Rightarrow> gpointer" where
  "captured_strtab h self =
     (case find (\<lambda>d. dyn_type d = DT_STRTAB) (dynamic_entry_table h self) of
        None \<Rightarrow> NULL
      | Some d \<Rightarrow> GSIZE_TO_POINTER h
                   (gum_elf_module_resolve_virtual_address self (dyn_value d)))"

definition needed_dependencies :: "host \<Rightarrow> GumElfModule \<Rightarrow> GumElfDependencyDetails list" where
  "needed_dependencies h self =
     map (\<lambda>d. \<lparr>dep_name = to_gsize h (captured_strtab h self + dyn_value d)\<rparr>)
       (filter (\<lambda>d. dyn_type d = DT_NEEDED) (dynamic_entry_table h self))"

text \<open>
  The entries the string-table pass looks at: those before the first string-table entry,
  and that entry itself.
\<close>

fun upto_first_strtab :: "GumElfDynamicEntryDetails list \<Rightarrow> GumElfDynamicEntryDetails list" where
  "upto_first_strtab [] = []"
| "upto_first_strtab (d # ds) =
     (if dyn_type d = DT_STRTAB then [d] else d # upto_first_strtab ds)"

text \<open>
  The preferred base address in the words of the specification: the virtual address of
  the first loadable segment whose file offset is zero, else zero.
\<close>

definition spec_preferred_address :: "Elf \<Rightarrow> GumAddress" where
  "spec_preferred_address e =
     (case find (\<lambda>phdr. p_type phdr = PT_LOAD \<and> p_offset phdr = 0) (program_headers e) of
        None \<Rightarrow> 0
      | Some phdr \<Rightarrow> p_vaddr phdr)"

text \<open>
  The bytes of a NUL-terminated string of at most \<open>n\<close> characters at an address of the
  host, and the bytes of a string literal.
\<close>

fun c_string :: "host \<Rightarrow> nat \<Rightarrow> gpointer \<Rightarrow> 8 word list option" where
  "c_string h 0 p = None"
| "c_string h (Suc n) p =
     (if load8 h p = 0 then Some []
      else map_option ((#) (load8 h p)) (c_string h n (to_gsize h (p + 1))))"

definition ascii :: "string \<Rightarrow> 8 word list" where
  "ascii s = map of_char s"

text \<open>
  What early termination means for a log of deliveries against a table: the records
  delivered are the leading records of the table, in order; every answer but the last
  was carry on; and the enumeration falls short of the table only after a stop.
\<close>

definition halts_at_stop :: "'r list \<Rightarrow> ('r \<times> bool) list \<Rightarrow> bool" where
  "halts_at_stop table log =
     (map fst log = take (length log) table
      \<and> list_all snd (butlast log)
      \<and> (length log = length table \<or> (log \<noteq> [] \<and> \<not> snd (last log))))"

text \<open>The one way the walk over a symbol-table section can trap.\<close>

definition symtab_entsize_zero :: "GumElfModule \<Rightarrow> bool" where
  "symtab_entsize_zero self =
     (case gum_elf_module_find_section_header self SHT_SYMTAB of
        None \<Rightarrow> False
      | Some scn \<Rightarrow> sh_entsize (gelf_getshdr scn) = 0)"

section \<open>Example images\<close>

text \<open>
  Memory given by tables of the non-zero cells, and an image record as the constructor
  leaves it for a parsed file.
\<close>

definition table_lookup :: "(64 word \<times> 'b::len word) list \<Rightarrow> 64 word \<Rightarrow> 'b word" where
  "table_lookup t a = (case map_of t a of None \<Rightarrow> 0 | Some v \<Rightarrow> v)"

definition elf_magic :: "8 word list" where
  "elf_magic = [0x7f, 0x45, 0x4c, 0x46]"

definition image_of :: "Elf \<Rightarrow> GumAddress \<Rightarrow> GumAddress \<Rightarrow> GumElfModule" where
  "image_of e base preferred =
     \<lparr>valid = True, name = Some ''demo'', path = ''/lib/demo'', file_data = Some elf_magic,
      file_size = 4, elf = Some e, ehdr = Some (gelf_getehdr e),
      base_address = base, preferred_address = preferred\<rparr>"

text \<open>A system whose only file, \<open>/lib/demo\<close>, maps and parses to the given descriptor.\<close>

definition os_with :: "Elf \<Rightarrow> os" where
  "os_with e =
     \<lparr>g_path_get_basename = (\<lambda>p. ''demo''),
      os_open = (\<lambda>p. if p = ''/lib/demo'' then Some elf_magic else None),
      os_mmap = (\<lambda>bytes. bytes \<noteq> []),
      elf_memory = (\<lambda>bytes. if bytes = elf_magic then Some e else None)\<rparr>"

text \<open>A static executable: its only program header is a loadable segment.\<close>

definition static_elf :: Elf where
  "static_elf =
     \<lparr>gelf_getehdr = \<lparr>e_type = ET_EXEC, e_phnum = 1\<rparr>,
      gelf_getphdr = (\<lambda>i. \<lparr>p_type = PT_LOAD, p_offset = 0, p_vaddr = 0x400000,
                               p_memsz = 0x1000\<rparr>),
      elf_sections = [],
      elf_strptr = (\<lambda>section offset. NULL)\<rparr>"

definition static_image :: GumElfModule where
  "static_image = image_of static_elf 0x400000 0x400000"

text \<open>
  A shared object linked at 0 and mapped at 0x10000 on a 64-bit host. Its dynamic
  segment at 0x2000 holds seven entries: two needed libraries, the hash table, the
  string table, the symbol table, the symbol entry size, and the terminator. The hash
  table announces four symbols: the null symbol, the undefined function \<open>puts\<close>, the
  global function \<open>demo\<close> and a local function. The string table at 0x1000 reads
  \<open>\0libc.so.6\0libm.so.6\0puts\0demo\0\<close>.
\<close>

definition demo_elf :: Elf where
  "demo_elf =
     \<lparr>gelf_getehdr = \<lparr>e_type = ET_DYN, e_phnum = 2\<rparr>,
      gelf_getphdr = (\<lambda>i. if i = 0
                            then \<lparr>p_type = PT_LOAD, p_offset = 0, p_vaddr = 0,
                                  p_memsz = 0x3000\<rparr>
                            else \<lparr>p_type = PT_DYNAMIC, p_offset = 0x2000, p_vaddr = 0x2000,
                                  p_memsz = 0x70\<rparr>),
      elf_sections =
        [\<lparr>gelf_getshdr = \<lparr>sh_type = SHT_SYMTAB, sh_size = 72, sh_entsize = 24, sh_link = 2\<rparr>,
          gelf_getsym = (\<lambda>i. if i = 1
                               then \<lparr>st_name = 21, st_info = 0x12, st_shndx = 0, st_value = 0\<rparr>
                               else if i = 2
                               then \<lparr>st_name = 26, st_info = 0x12, st_shndx = 7,
                                     st_value = 0x500\<rparr>
                               else \<lparr>st_name = 0, st_info = 0, st_shndx = 0, st_value = 0\<rparr>)\<rparr>],
      elf_strptr = (\<lambda>section offset. 0x5000 + ucast offset)\<rparr>"

definition demo_image :: GumElfModule where
  "demo_image = image_of demo_elf 0x10000 0"

definition demo_bytes :: "(64 word \<times> 8 word) list" where
  "demo_bytes =
     [(0x11001, 0x6c),
      (0x11002, 0x69),
      (0x11003, 0x62),
      (0x11004, 0x63),
      (0x11005, 0x2e),
      (0x11006, 0x73),
      (0x11007, 0x6f),
      (0x11008, 0x2e),
      (0x11009, 0x36),
      (0x1100b, 0x6c),
      (0x1100c, 0x69),
      (0x1100d, 0x62),
      (0x1100e, 0x6d),
      (0x1100f, 0x2e),
      (0x11010, 0x73),
      (0x11011, 0x6f),
      (0x11012, 0x2e),
      (0x11013, 0x36),
      (0x11015, 0x70),
      (0x11016, 0x75),
      (0x11017, 0x74),
      (0x11018, 0x73),
      (0x1101a, 0x64),
      (0x1101b, 0x65),
      (0x1101c, 0x6d),
      (0x1101d, 0x6f),
      (0x1111c, 0x12),
      (0x11134, 0x12),
      (0x1114c, 0x2)]"

definition demo_halves :: "(64 word \<times> 16 word) list" where
  "demo_halves = [(0x11136, 7), (0x1114e, 7)]"

definition demo_words :: "(64 word \<times> 32 word) list" where
  "demo_words = [(0x10804, 4), (0x11118, 21), (0x11130, 26)]"

definition demo_xwords :: "(64 word \<times> 64 word) list" where
  "demo_xwords =
     [(0x12000, 1), (0x12008, 1),
      (0x12010, 1), (0x12018, 11),
      (0x12020, 4), (0x12028, 0x800),
      (0x12030, 5), (0x12038, 0x1000),
      (0x12040, 6), (0x12048, 0x1100),
      (0x12050, 11), (0x12058, 24),
      (0x11138, 0x500), (0x11150, 0x600)]"

definition demo_host :: host where
  "demo_host =
     \<lparr>sizeof_gpointer = 8,
      load8 = table_lookup demo_bytes,
      load16 = table_lookup demo_halves,
      load32 = table_lookup demo_words,
      load64 = table_lookup demo_xwords\<rparr>"

text \<open>
  An executable linked at 0x400000 whose program headers list the stack permissions
  (\<open>PT_GNU_STACK\<close>, all of whose address fields are zero) before the loadable segment.
\<close>

definition PT_GNU_STACK :: "32 word" where "PT_GNU_STACK = 0x6474e551"

definition stack_first_elf :: Elf where
  "stack_first_elf =
     \<lparr>gelf_getehdr = \<lparr>e_type = ET_EXEC, e_phnum = 2\<rparr>,
      gelf_getphdr = (\<lambda>i. if i = 0
                            then \<lparr>p_type = PT_GNU_STACK, p_offset = 0, p_vaddr = 0,
                                  p_memsz = 0\<rparr>
                            else \<lparr>p_type = PT_LOAD, p_offset = 0, p_vaddr = 0x400000,
                                  p_memsz = 0x1000\<rparr>),
      elf_sections = [],
      elf_strptr = (\<lambda>section offset. NULL)\<rparr>"

text \<open>A relocatable object file.\<close>

definition reloc_elf :: Elf where
  "reloc_elf =
     \<lparr>gelf_getehdr = \<lparr>e_type = ET_REL, e_phnum = 0\<rparr>,
      gelf_getphdr = (\<lambda>i. \<lparr>p_type = 0, p_offset = 0, p_vaddr = 0, p_memsz = 0\<rparr>),
      elf_sections = [],
      elf_strptr = (\<lambda>section offset. NULL)\<rparr>"

text \<open>
  The same shared object with another dynamic segment in memory: the hash table is
  listed twice, then the symbol table and the string table; there is no entry for the
  symbol entry size.
\<close>

definition dup_xwords :: "(64 word \<times> 64 word) list" where
  "dup_xwords =
     [(0x12000, 4), (0x12008, 0x800),
      (0x12010, 4), (0x12018, 0x800),
      (0x12020, 6), (0x12028, 0x1100),
      (0x12030, 5), (0x12038, 0x1000),
      (0x11138, 0x500), (0x11150, 0x600)]"

definition dup_host :: host where
  "dup_host = demo_host\<lparr>load64 := table_lookup dup_xwords\<rparr>"

text \<open>
  The shared object mapped at its link address 0, with a dynamic segment of one needed
  library and a string-table entry whose value is 0.
\<close>

definition nullstr_image :: GumElfModule where
  "nullstr_image = image_of demo_elf 0 0"

definition nullstr_xwords :: "(64 word \<times> 64 word) list" where
  "nullstr_xwords = [(0x2000, 1), (0x2008, 1), (0x2010, 5), (0x2018, 0)]"

definition nullstr_host :: host where
  "nullstr_host = demo_host\<lparr>load64 := table_lookup nullstr_xwords\<rparr>"

text \<open>The image of the scenario of address translation.\<close>

definition scenario_image :: GumElfModule where
  "scenario_image = image_of static_elf 0x7f0000000000 0x400000"

text \<open>Callbacks for the examples: one that always carries on, one that always stops.\<close>

definition carry_on_always :: "'r \<Rightarrow> unit \<Rightarrow> bool \<times> unit" where
  "carry_on_always r u = (True, u)"

definition stop_always :: "'r \<Rightarrow> unit \<Rightarrow> bool \<times> unit" where
  "stop_always r u = (False, u)"

section \<open>The loops are the protocol\<close>

lemma word_range_empty [simp]: "word_range n n = []"
  by (simp add: word_range_def)

lemma word_range_step:
  fixes i n :: "'a::len word"
  assumes "i \<noteq> n"
  shows "word_range i n = i # word_range (i + 1) n"
proof -
  have nz: "n - i \<noteq> 0" using assms by simp
  have "n - (i + 1) = (n - i) - 1" by simp
  moreover have "unat ((n - i) - 1) = unat (n - i) - 1" using nz by (rule unat_minus_one)
  moreover have "0 < unat (n - i)" using nz by (simp add: unat_gt_0)
  ultimately have len: "unat (n - i) = Suc (unat (n - (i + 1)))" by (simp only:)
  have "[0..<Suc (unat (n - (i + 1)))] = 0 # map Suc [0..<unat (n - (i + 1))]"
    by (simp add: upt_conv_Cons map_Suc_upt del: upt_Suc)
  then show ?thesis
    by (simp add: word_range_def len comp_def add.assoc del: upt_Suc)
qed

lemma preferred_address_loop_find:
  "preferred_address_loop e n i =
     (case find (\<lambda>phdr. p_offset phdr = 0) (map (gelf_getphdr e) (word_range i n)) of
        None \<Rightarrow> 0 | Some phdr \<Rightarrow> p_vaddr phdr)"
proof (induction e n i rule: preferred_address_loop.induct)
  case (1 e n i)
  show ?case
  proof (cases "i = n")
    case True
    then show ?thesis by (simp add: preferred_address_loop.simps)
  next
    case False
    then show ?thesis
      using 1 [OF False refl]
      by (subst preferred_address_loop.simps) (simp add: word_range_step Let_def)
  qed
qed

lemma find_dynamic_range_loop_find:
  "find_dynamic_range_loop h e n i =
     map_option (\<lambda>phdr. \<lparr>range_base_address = p_vaddr phdr,
                          range_size = to_gsize h (p_memsz phdr)\<rparr>)
       (find (\<lambda>phdr. p_type phdr = PT_DYNAMIC) (map (gelf_getphdr e) (word_range i n)))"
proof (induction h e n i rule: find_dynamic_range_loop.induct)
  case (1 h e n i)
  show ?case
  proof (cases "i = n")
    case True
    then show ?thesis by (simp add: find_dynamic_range_loop.simps)
  next
    case False
    then show ?thesis
      using 1 [OF False refl]
      by (subst find_dynamic_range_loop.simps) (simp add: word_range_step Let_def)
  qed
qed

lemma dynamic_entries_loop_deliver:
  "dynamic_entries_loop entries func n i u = deliver func (map entries (word_range i n)) u"
proof (induction entries func n i u rule: dynamic_entries_loop.induct)
  case (1 entries func n i u)
  show ?case
  proof (cases "i = n")
    case True
    then show ?thesis by (simp add: dynamic_entries_loop.simps)
  next
    case False
    obtain c u' where fr: "func (entries i) u = (c, u')" by (cases "func (entries i) u")
    show ?thesis
    proof (cases c)
      case True
      with False fr 1 [OF False fr [symmetric]] show ?thesis
        by (subst dynamic_entries_loop.simps) (simp add: word_range_step)
    next
      case c: False
      with False fr show ?thesis
        by (subst dynamic_entries_loop.simps) (simp add: word_range_step)
    qed
  qed
qed

lemma dynamic_symbols_loop_deliver:
  "dynamic_symbols_loop symbol_at func n i u =
     deliver func (map (\<lambda>k. symbol_at (of_nat k)) [unat i..<unat n]) u"
proof (induction symbol_at func n i u rule: dynamic_symbols_loop.induct)
  case (1 symbol_at func n i u)
  show ?case
  proof (cases "i < n")
    case False
    then show ?thesis
      by (subst dynamic_symbols_loop.simps) (simp add: word_less_nat_alt)
  next
    case True
    then have lt: "unat i < unat n" by (simp add: word_less_nat_alt)
    have suc: "unat (i + 1) = Suc (unat i)" using True by (rule word_index_succ)
    have range: "[unat i..<unat n] = unat i # [unat (i + 1)..<unat n]"
      using lt by (simp add: suc upt_conv_Cons)
    obtain c u' where fr: "func (symbol_at i) u = (c, u')" by (cases "func (symbol_at i) u")
    show ?thesis
    proof (cases c)
      case c: True
      with True fr 1 [OF True fr [symmetric]] show ?thesis
        by (subst dynamic_symbols_loop.simps) (simp add: range)
    next
      case c: False
      with True fr show ?thesis
        by (subst dynamic_symbols_loop.simps) (simp add: range)
    qed
  qed
qed

lemma section_symbols_loop_deliver:
  "section_symbols_loop symbol_at func n i c u =
     (if c then deliver func (map symbol_at (word_range i n)) u else u)"
proof (induction symbol_at func n i c u rule: section_symbols_loop.induct)
  case (1 symbol_at func n i c u)
  show ?case
  proof (cases "i \<noteq> n \<and> c")
    case False
    then show ?thesis
      by (subst section_symbols_loop.simps) auto
  next
    case True
    obtain c' u' where fr: "func (symbol_at i) u = (c', u')" by (cases "func (symbol_at i) u")
    from True fr 1 [OF True fr [symmetric]] show ?thesis
      by (subst section_symbols_loop.simps) (simp add: word_range_step)
  qed
qed

lemma recording_apply:
  "func r u = (c, u') \<Longrightarrow> recording func r (u, log) = (c, (u', log @ [(r, c)]))"
  by (simp add: recording_def)

lemma deliver_recording:
  "deliver (recording func) rs (u, log) = (deliver func rs u, log @ trace func rs u)"
proof (induction rs arbitrary: u log)
  case Nil
  show ?case by simp
next
  case (Cons r rs)
  obtain c u' where fr: "func r u = (c, u')" by (cases "func r u")
  show ?case using Cons [of u' "log @ [(r, c)]"]
    by (cases c) (simp_all add: recording_apply [of func r u c u'] fr)
qed

lemma trace_prefix: "map fst (trace func rs u) = take (length (trace func rs u)) rs"
proof (induction rs arbitrary: u)
  case Nil
  show ?case by simp
next
  case (Cons r rs)
  obtain c u' where fr: "func r u = (c, u')" by (cases "func r u")
  show ?case using Cons [of u'] fr by simp
qed

lemma trace_length: "length (trace func rs u) \<le> length rs"
proof (induction rs arbitrary: u)
  case Nil
  show ?case by simp
next
  case (Cons r rs)
  obtain c u' where fr: "func r u = (c, u')" by (cases "func r u")
  show ?case using Cons [of u'] fr by simp
qed

lemma trace_stop_last: "list_all snd (butlast (trace func rs u))"
proof (induction rs arbitrary: u)
  case Nil
  show ?case by simp
next
  case (Cons r rs)
  obtain c u' where fr: "func r u = (c, u')" by (cases "func r u")
  show ?case using Cons [of u'] fr by simp
qed

lemma trace_complete:
  "length (trace func rs u) = length rs
   \<or> (trace func rs u \<noteq> [] \<and> \<not> snd (last (trace func rs u)))"
proof (induction rs arbitrary: u)
  case Nil
  show ?case by simp
next
  case (Cons r rs)
  obtain c u' where fr: "func r u = (c, u')" by (cases "func r u")
  show ?case using Cons [of u'] fr by auto
qed

lemma trace_first_stop:
  assumes "rs \<noteq> []" "\<not> fst (func (hd rs) u)"
  shows "trace func rs u = [(hd rs, False)]"
proof -
  obtain r rs' where rs: "rs = r # rs'" using assms(1) by (cases rs) auto
  obtain c u' where fr: "func r u = (c, u')" by (cases "func r u")
  with assms(2) rs have "\<not> c" by simp
  with rs fr show ?thesis by simp
qed

section \<open>The enumerations of a valid image\<close>

lemma word_range_zero: "word_range 0 n = map of_nat [0..<unat n]"
  by (simp add: word_range_def)

lemma valid_imageE:
  assumes "is_valid_image self"
  obtains e where "elf self = Some e" "ehdr self = Some (gelf_getehdr e)" "valid self"
  using assms by (auto simp: is_valid_image_def split: option.splits)

lemma find_dynamic_range_valid:
  assumes "elf self = Some e" "ehdr self = Some (gelf_getehdr e)"
  shows "gum_elf_module_find_dynamic_range h self =
           Inr (map_option (\<lambda>phdr. \<lparr>range_base_address = p_vaddr phdr,
                                      range_size = to_gsize h (p_memsz phdr)\<rparr>)
                  (find (\<lambda>phdr. p_type phdr = PT_DYNAMIC) (program_headers e)))"
  using assms
  by (simp add: gum_elf_module_find_dynamic_range_def find_dynamic_range_loop_find
      program_headers_def)

lemma enumerate_dynamic_entries_deliver:
  assumes "gum_elf_module_find_dynamic_range h self = Inr r"
  shows "gum_elf_module_enumerate_dynamic_entries h self func u =
           Inr (deliver func (dynamic_entry_table h self) u)"
  using assms
  by (cases r)
     (simp_all add: gum_elf_module_enumerate_dynamic_entries_def dynamic_entry_table_def
        dynamic_entries_loop_deliver Let_def)

lemma enumerate_dynamic_entries_valid:
  assumes "is_valid_image self"
  shows "gum_elf_module_enumerate_dynamic_entries h self func u =
           Inr (deliver func (dynamic_entry_table h self) u)"
proof -
  from assms obtain e where "elf self = Some e" "ehdr self = Some (gelf_getehdr e)"
    by (rule valid_imageE)
  then show ?thesis
    by (rule enumerate_dynamic_entries_deliver [OF find_dynamic_range_valid])
qed

lemma enumerate_dynamic_symbols_valid:
  assumes "is_valid_image self"
  shows "gum_elf_module_enumerate_dynamic_symbols h self func u =
           Inr (deliver func (dynamic_symbol_table h self) u)"
  by (simp add: gum_elf_module_enumerate_dynamic_symbols_def
      enumerate_dynamic_entries_valid [OF assms] dynamic_symbol_table_def symtab_params_def
      dynamic_symbols_loop_deliver Let_def)

lemma enumerate_symbols_section:
  "gum_elf_module_enumerate_symbols self func u =
     (case gum_elf_module_find_section_header self SHT_SYMTAB of
        None \<Rightarrow> Inr u
      | Some scn \<Rightarrow>
          if sh_entsize (gelf_getshdr scn) = 0 then Inl DivideByZero
          else Inr (deliver func (section_symbol_table self) u))"
  by (simp add: gum_elf_module_enumerate_symbols_def
      gum_elf_module_enumerate_symbols_in_section_def section_symbol_table_def
      section_symbols_loop_deliver Let_def split: option.splits)

lemma deliver_emit_elf_export:
  "deliver gum_emit_elf_export syms ctx =
     ctx\<lparr>exports_user_data :=
            deliver (exports_func ctx) (map export_of (filter is_export syms))
              (exports_user_data ctx)\<rparr>"
proof (induction syms arbitrary: ctx)
  case Nil
  show ?case by simp
next
  case (Cons s syms)
  show ?case
  proof (cases "is_export s")
    case False
    then have "gum_emit_elf_export s ctx = (True, ctx)"
      by (auto simp add: gum_emit_elf_export_def is_export_def)
    with False Cons [of ctx] show ?thesis by simp
  next
    case True
    obtain c u' where fr: "exports_func ctx (export_of s) (exports_user_data ctx) = (c, u')"
      by (cases "exports_func ctx (export_of s) (exports_user_data ctx)")
    from True fr have "gum_emit_elf_export s ctx = (c, ctx\<lparr>exports_user_data := u'\<rparr>)"
      by (simp add: gum_emit_elf_export_def is_export_def export_of_def export_type_of_def)
    with True fr Cons [of "ctx\<lparr>exports_user_data := u'\<rparr>"] show ?thesis by simp
  qed
qed

lemma deliver_emit_elf_import:
  "deliver gum_emit_elf_import syms ctx =
     ctx\<lparr>imports_user_data :=
            deliver (imports_func ctx) (map import_of (filter is_import syms))
              (imports_user_data ctx)\<rparr>"
proof (induction syms arbitrary: ctx)
  case Nil
  show ?case by simp
next
  case (Cons s syms)
  show ?case
  proof (cases "is_import s")
    case False
    then have "gum_emit_elf_import s ctx = (True, ctx)"
      by (auto simp add: gum_emit_elf_import_def is_import_def)
    with False Cons [of ctx] show ?thesis by simp
  next
    case True
    obtain c u' where fr: "imports_func ctx (import_of s) (imports_user_data ctx) = (c, u')"
      by (cases "imports_func ctx (import_of s) (imports_user_data ctx)")
    from True fr have "gum_emit_elf_import s ctx = (c, ctx\<lparr>imports_user_data := u'\<rparr>)"
      by (simp add: gum_emit_elf_import_def is_import_def import_of_def export_type_of_def)
    with True fr Cons [of "ctx\<lparr>imports_user_data := u'\<rparr>"] show ?thesis by simp
  qed
qed

lemma deliver_store_strtab:
  "deliver (gum_store_strtab h) ds ctx =
     (case find (\<lambda>d. dyn_type d = DT_STRTAB) ds of
        None \<Rightarrow> ctx
      | Some d \<Rightarrow> ctx\<lparr>deps_strtab := GSIZE_TO_POINTER h
                     (gum_elf_module_resolve_virtual_address (deps_module ctx) (dyn_value d))\<rparr>)"
  by (induction ds) (simp_all add: gum_store_strtab_def)

lemma trace_store_strtab:
  "map fst (trace (gum_store_strtab h) ds ctx) = upto_first_strtab ds"
  by (induction ds) (simp_all add: gum_store_strtab_def)

lemma deliver_emit_each_needed:
  "deliver (gum_emit_each_needed h) ds ctx =
     ctx\<lparr>deps_user_data :=
            deliver (deps_func ctx)
              (map (\<lambda>d. \<lparr>dep_name = to_gsize h (deps_strtab ctx + dyn_value d)\<rparr>)
                 (filter (\<lambda>d. dyn_type d = DT_NEEDED) ds))
              (deps_user_data ctx)\<rparr>"
proof (induction ds arbitrary: ctx)
  case Nil
  show ?case by simp
next
  case (Cons d ds)
  show ?case
  proof (cases "dyn_type d = DT_NEEDED")
    case False
    with Cons [of ctx] show ?thesis by (simp add: gum_emit_each_needed_def)
  next
    case True
    let ?r = "\<lparr>dep_name = to_gsize h (deps_strtab ctx + dyn_value d)\<rparr>"
    obtain c u' where fr: "deps_func ctx ?r (deps_user_data ctx) = (c, u')"
      by (cases "deps_func ctx ?r (deps_user_data ctx)")
    from True fr have "gum_emit_each_needed h d ctx = (c, ctx\<lparr>deps_user_data := u'\<rparr>)"
      by (simp add: gum_emit_each_needed_def)
    with True fr Cons [of "ctx\<lparr>deps_user_data := u'\<rparr>"] show ?thesis by simp
  qed
qed

lemma enumerate_dependencies_valid:
  assumes "is_valid_image self"
  shows "gum_elf_module_enumerate_dependencies h self func u =
           Inr (if captured_strtab h self = NULL then u
                else deliver func (needed_dependencies h self) u)"
  by (simp add: gum_elf_module_enumerate_dependencies_def
      enumerate_dynamic_entries_valid [OF assms] deliver_store_strtab
      deliver_emit_each_needed captured_strtab_def needed_dependencies_def Let_def
      split: option.splits)

lemma enumerate_imports_valid:
  assumes "is_valid_image self"
  shows "gum_elf_module_enumerate_imports h self func u =
           Inr (deliver func (map import_of (filter is_import (dynamic_symbol_table h self))) u)"
  by (simp add: gum_elf_module_enumerate_imports_def
      enumerate_dynamic_symbols_valid [OF assms] deliver_emit_elf_import)

lemma enumerate_exports_valid:
  assumes "is_valid_image self"
  shows "gum_elf_module_enumerate_exports h self func u =
           Inr (deliver func (map export_of (filter is_export (dynamic_symbol_table h self))) u)"
  by (simp add: gum_elf_module_enumerate_exports_def
      enumerate_dynamic_symbols_valid [OF assms] deliver_emit_elf_export)

lemma no_dynamic_segment_table:
  assumes "is_valid_image self" "\<not> has_dynamic_segment self"
  shows "dynamic_entry_table h self = []"
proof -
  from assms(1) obtain e where e: "elf self = Some e" "ehdr self = Some (gelf_getehdr e)"
    by (rule valid_imageE)
  from assms(2) e have "find (\<lambda>phdr. p_type phdr = PT_DYNAMIC) (program_headers e) = None"
    by (simp add: has_dynamic_segment_def list_ex_iff find_None_iff)
  then show ?thesis
    by (simp add: dynamic_entry_table_def find_dynamic_range_valid [OF e])
qed

text \<open>What the constructor hands to a caller is a valid image.\<close>

lemma new_from_memory_valid:
  assumes "gum_elf_module_new_from_memory sys p b = Inr (Some m)"
  shows "is_valid_image m"
  using assms
  by (auto simp: gum_elf_module_new_from_memory_def gum_elf_module_constructed_def
      gum_elf_module_compute_preferred_address_def is_valid_image_def Let_def
      split: option.splits if_splits sum.splits)

section \<open>Logs of deliveries\<close>

lemma trace_halts_at_stop: "halts_at_stop rs (trace func rs u)"
  unfolding halts_at_stop_def
  using trace_prefix [of func rs u] trace_stop_last [of func rs u] trace_complete [of func rs u]
  by blast

lemma trace_first_record:
  assumes "rs \<noteq> []" "\<not> fst (func (hd rs) u)"
  shows "map fst (trace func rs u) = [hd rs]"
  using trace_first_stop [of rs func u] assms by simp

lemma trace_all_carry_on:
  assumes "list_all snd (trace func rs u)"
  shows "map fst (trace func rs u) = rs"
proof -
  have "length (trace func rs u) = length rs"
  proof (rule ccontr)
    assume "length (trace func rs u) \<noteq> length rs"
    with trace_complete [of func rs u]
    have ne: "trace func rs u \<noteq> []" and stop: "\<not> snd (last (trace func rs u))" by auto
    from ne have "last (trace func rs u) \<in> set (trace func rs u)" by simp
    with assms stop show False by (simp add: list_all_iff)
  qed
  with trace_prefix [of func rs u] show ?thesis by simp
qed

lemma trace_subset: "set (map fst (trace func rs u)) \<subseteq> set rs"
proof -
  have "set (take (length (trace func rs u)) rs) \<subseteq> set rs" by (rule set_take_subset)
  then show ?thesis by (simp only: trace_prefix [symmetric])
qed

section \<open>The example images, evaluated\<close>

lemma static_valid: "is_valid_image static_image"
  by (simp add: is_valid_image_def static_image_def image_of_def)

lemma static_headers: "program_headers static_elf = [\<lparr>p_type = PT_LOAD, p_offset = 0, p_vaddr = 0x400000, p_memsz = 0x1000\<rparr>]"
  by (simp add: program_headers_def static_elf_def word_range_zero)

lemma demo_headers: "program_headers demo_elf =
   [\<lparr>p_type = PT_LOAD, p_offset = 0, p_vaddr = 0, p_memsz = 0x3000\<rparr>,
    \<lparr>p_type = PT_DYNAMIC, p_offset = 0x2000, p_vaddr = 0x2000, p_memsz = 0x70\<rparr>]"
  by (simp add: program_headers_def demo_elf_def word_range_zero upt_rec)

lemma demo_elf_fields:
  "elf demo_image = Some demo_elf" "ehdr demo_image = Some (gelf_getehdr demo_elf)"
  by (simp_all add: demo_image_def image_of_def)

lemma demo_range: "gum_elf_module_find_dynamic_range demo_host demo_image = Inr (Some \<lparr>range_base_address = 0x2000, range_size = 0x70\<rparr>)"
  by (simp add: find_dynamic_range_valid [OF demo_elf_fields] demo_headers
      PT_DYNAMIC_def PT_LOAD_def to_gsize_def demo_host_def)

lemma demo_entries: "dynamic_entry_table demo_host demo_image =
   [\<lparr>dyn_type = 1, dyn_value = 1\<rparr>, \<lparr>dyn_type = 1, dyn_value = 11\<rparr>,
    \<lparr>dyn_type = 4, dyn_value = 0x800\<rparr>, \<lparr>dyn_type = 5, dyn_value = 0x1000\<rparr>,
    \<lparr>dyn_type = 6, dyn_value = 0x1100\<rparr>, \<lparr>dyn_type = 11, dyn_value = 24\<rparr>,
    \<lparr>dyn_type = 0, dyn_value = 0\<rparr>]"
  apply (simp add: dynamic_entry_table_def demo_range)
  apply (simp add: gum_elf_module_resolve_virtual_address_def GSIZE_TO_POINTER_def to_gsize_def
      demo_image_def image_of_def demo_host_def word_range_zero upt_rec read_Elf64_Dyn_def
      table_lookup_def demo_xwords_def)
  done

lemma demo_valid: "is_valid_image demo_image"
  by (simp add: is_valid_image_def demo_image_def image_of_def)

lemma demo_params:
  "symtab_params demo_host demo_image =
     \<lparr>pending = 0, symtab_entries = 0x11100, symtab_entry_size = 24,
      symtab_entry_count = 4, symtab_strtab = 0x11000, symtab_module = demo_image\<rparr>"
  apply (simp add: symtab_params_def demo_entries)
  apply (simp add: gum_store_symtab_params_def DT_SYMTAB_def DT_SYMENT_def DT_HASH_def
      DT_STRTAB_def NULL_def Let_def GSIZE_TO_POINTER_def to_gsize_def
      gum_elf_module_resolve_virtual_address_def)
  apply (simp add: demo_image_def image_of_def demo_host_def table_lookup_def demo_words_def)
  done

lemma demo_symbols:
  "dynamic_symbol_table demo_host demo_image =
     [\<lparr>sym_name = 0x11015, sym_address = 0x10000, sym_type = 2, sym_bind = 1,
       sym_section_header_index = 0\<rparr>,
      \<lparr>sym_name = 0x1101a, sym_address = 0x10500, sym_type = 2, sym_bind = 1,
       sym_section_header_index = 7\<rparr>,
      \<lparr>sym_name = 0x11000, sym_address = 0x10600, sym_type = 2, sym_bind = 0,
       sym_section_header_index = 7\<rparr>]"
  apply (simp add: dynamic_symbol_table_def demo_params upt_rec)
  apply (simp add: dynamic_symbol_at_def read_Elf64_Sym_def symbol_details_def to_gsize_def
      gum_elf_module_resolve_virtual_address_def GELF_ST_TYPE_def GELF_ST_BIND_def Let_def)
  apply (simp add: demo_image_def image_of_def demo_host_def table_lookup_def demo_words_def
      demo_bytes_def demo_halves_def demo_xwords_def)
  done

lemma demo_section_symbols:
  "section_symbol_table demo_image =
     [\<lparr>sym_name = 0x5000, sym_address = 0x10000, sym_type = 0, sym_bind = 0,
       sym_section_header_index = 0\<rparr>,
      \<lparr>sym_name = 0x5015, sym_address = 0x10000, sym_type = 2, sym_bind = 1,
       sym_section_header_index = 0\<rparr>,
      \<lparr>sym_name = 0x501a, sym_address = 0x10500, sym_type = 2, sym_bind = 1,
       sym_section_header_index = 7\<rparr>]"
  apply (simp add: section_symbol_table_def gum_elf_module_find_section_header_def demo_elf_fields)
  apply (simp add: demo_elf_def word_range_zero upt_rec symbol_details_def
      gum_elf_module_resolve_virtual_address_def GELF_ST_TYPE_def GELF_ST_BIND_def)
  apply (simp add: demo_image_def image_of_def demo_elf_def)
  done

lemma demo_entsize: "\<not> symtab_entsize_zero demo_image"
  by (simp add: symtab_entsize_zero_def gum_elf_module_find_section_header_def demo_elf_fields)
     (simp add: demo_elf_def)

lemma c_string_numeral:
  "c_string h (numeral k) p =
     (if load8 h p = 0 then Some []
      else map_option ((#) (load8 h p)) (c_string h (pred_numeral k) (to_gsize h (p + 1))))"
  by (simp add: numeral_eq_Suc)

lemma demo_load8: "load8 demo_host = table_lookup demo_bytes" "sizeof_gpointer demo_host = 8"
  by (simp_all add: demo_host_def)

lemma demo_strings:
  "c_string demo_host 16 0x11001 = Some (ascii ''libc.so.6'')"
  "c_string demo_host 16 0x1100b = Some (ascii ''libm.so.6'')"
  by (simp_all add: c_string_numeral to_gsize_def demo_load8 table_lookup_def demo_bytes_def ascii_def)

lemma static_elf_fields:
  "elf static_image = Some static_elf" "ehdr static_image = Some (gelf_getehdr static_elf)"
  by (simp_all add: static_image_def image_of_def)

lemma static_no_dynamic: "\<not> has_dynamic_segment static_image"
  by (simp add: has_dynamic_segment_def static_elf_fields static_headers PT_LOAD_def PT_DYNAMIC_def)

section \<open>Properties of address translation\<close>

text \<open>
  C1. For every image with runtime base \<open>B\<close> and preferred base \<open>P\<close>, the translator
  computes \<open>B + (a - P)\<close> in 64-bit wrap-around arithmetic for every address \<open>a\<close>; hence
  the preferred base is sent to the runtime base, and translation commutes with adding
  any offset \<open>k\<close>.
\<close>

theorem resolve_affine_shift:
  "gum_elf_module_resolve_virtual_address self a
      = base_address self + (a - preferred_address self)
   \<and> gum_elf_module_resolve_virtual_address self (preferred_address self)
      = base_address self
   \<and> gum_elf_module_resolve_virtual_address self (a + k)
      = gum_elf_module_resolve_virtual_address self a + k"
  by (simp add: gum_elf_module_resolve_virtual_address_def)

section \<open>Images without a dynamic segment\<close>

text \<open>
  C3. For every valid image whose program headers hold no segment of type \<open>PT_DYNAMIC\<close>,
  dependency, import and export enumeration each return normally, hand the caller's
  \<open>user_data\<close> back untouched, and never invoke the callback: the log of deliveries that
  the recording callback keeps is empty.
\<close>

theorem no_dynamic_segment_empty:
  assumes "is_valid_image self" "\<not> has_dynamic_segment self"
  shows "gum_elf_module_enumerate_dependencies h self (recording f) (u, []) = Inr (u, [])
       \<and> gum_elf_module_enumerate_imports h self (recording g) (v, []) = Inr (v, [])
       \<and> gum_elf_module_enumerate_exports h self (recording k) (w, []) = Inr (w, [])"
proof -
  have table: "dynamic_entry_table h self = []"
    using assms by (rule no_dynamic_segment_table)
  then have strtab: "captured_strtab h self = NULL"
    by (simp add: captured_strtab_def)
  from table have syms: "dynamic_symbol_table h self = []"
    by (simp add: dynamic_symbol_table_def symtab_params_def)
  have "gum_elf_module_enumerate_dependencies h self (recording f) (u, []) = Inr (u, [])"
    by (simp add: enumerate_dependencies_valid [OF assms(1)] strtab)
  moreover have "gum_elf_module_enumerate_imports h self (recording g) (v, []) = Inr (v, [])"
    by (simp add: enumerate_imports_valid [OF assms(1)] syms)
  moreover have "gum_elf_module_enumerate_exports h self (recording k) (w, []) = Inr (w, [])"
    by (simp add: enumerate_exports_valid [OF assms(1)] syms)
  ultimately show ?thesis by simp
qed

theorem no_dynamic_segment_empty_witness:
  "gum_elf_module_enumerate_dependencies demo_host static_image (recording carry_on_always)
       ((), []) = Inr ((), [])
   \<and> gum_elf_module_enumerate_imports demo_host static_image (recording carry_on_always)
       ((), []) = Inr ((), [])
   \<and> gum_elf_module_enumerate_exports demo_host static_image (recording carry_on_always)
       ((), []) = Inr ((), [])"
  by (rule no_dynamic_segment_empty [OF static_valid static_no_dynamic])

section \<open>Early termination\<close>

text \<open>
  C5. For every valid image and every callback, each of the three enumeration entry
  points (dynamic entries, dynamic symbols, section symbols) delivers the leading records
  of its table in order and stops at the first stop answer: no answer but the last one
  in the log is a stop. If the callback answers stop on the first record of a non-empty
  table, exactly that one record is delivered, whatever the size of the table. The walk
  over a symbol-table section whose entry size is zero traps in the division before any
  delivery.
\<close>

theorem early_termination:
  assumes "is_valid_image self"
  shows "(\<exists>u' log.
            gum_elf_module_enumerate_dynamic_entries h self (recording f) (u, []) = Inr (u', log)
            \<and> halts_at_stop (dynamic_entry_table h self) log
            \<and> (dynamic_entry_table h self \<noteq> []
                 \<and> \<not> fst (f (hd (dynamic_entry_table h self)) u)
               \<longrightarrow> map fst log = [hd (dynamic_entry_table h self)]))
       \<and> (\<exists>v' log.
            gum_elf_module_enumerate_dynamic_symbols h self (recording g) (v, []) = Inr (v', log)
            \<and> halts_at_stop (dynamic_symbol_table h self) log
            \<and> (dynamic_symbol_table h self \<noteq> []
                 \<and> \<not> fst (g (hd (dynamic_symbol_table h self)) v)
               \<longrightarrow> map fst log = [hd (dynamic_symbol_table h self)]))
       \<and> (if symtab_entsize_zero self
           then gum_elf_module_enumerate_symbols self (recording g) (v, []) = Inl DivideByZero
           else (\<exists>v' log.
                  gum_elf_module_enumerate_symbols self (recording g) (v, []) = Inr (v', log)
                  \<and> halts_at_stop (section_symbol_table self) log
                  \<and> (section_symbol_table self \<noteq> []
                       \<and> \<not> fst (g (hd (section_symbol_table self)) v)
                     \<longrightarrow> map fst log = [hd (section_symbol_table self)])))"
proof (intro conjI)
  show "\<exists>u' log.
          gum_elf_module_enumerate_dynamic_entries h self (recording f) (u, []) = Inr (u', log)
          \<and> halts_at_stop (dynamic_entry_table h self) log
          \<and> (dynamic_entry_table h self \<noteq> []
               \<and> \<not> fst (f (hd (dynamic_entry_table h self)) u)
             \<longrightarrow> map fst log = [hd (dynamic_entry_table h self)])"
    by (simp add: enumerate_dynamic_entries_valid [OF assms] deliver_recording
        trace_halts_at_stop trace_first_record)
  show "\<exists>v' log.
          gum_elf_module_enumerate_dynamic_symbols h self (recording g) (v, []) = Inr (v', log)
          \<and> halts_at_stop (dynamic_symbol_table h self) log
          \<and> (dynamic_symbol_table h self \<noteq> []
               \<and> \<not> fst (g (hd (dynamic_symbol_table h self)) v)
             \<longrightarrow> map fst log = [hd (dynamic_symbol_table h self)])"
    by (simp add: enumerate_dynamic_symbols_valid [OF assms] deliver_recording
        trace_halts_at_stop trace_first_record)
  show "if symtab_entsize_zero self
        then gum_elf_module_enumerate_symbols self (recording g) (v, []) = Inl DivideByZero
        else (\<exists>v' log.
               gum_elf_module_enumerate_symbols self (recording g) (v, []) = Inr (v', log)
               \<and> halts_at_stop (section_symbol_table self) log
               \<and> (section_symbol_table self \<noteq> []
                    \<and> \<not> fst (g (hd (section_symbol_table self)) v)
                  \<longrightarrow> map fst log = [hd (section_symbol_table self)]))"
  proof (cases "gum_elf_module_find_section_header self SHT_SYMTAB")
    case None
    then have "section_symbol_table self = []" by (simp add: section_symbol_table_def)
    with None show ?thesis
      by (simp add: enumerate_symbols_section symtab_entsize_zero_def halts_at_stop_def)
  next
    case (Some scn)
    then show ?thesis
      by (simp add: enumerate_symbols_section symtab_entsize_zero_def deliver_recording
          trace_halts_at_stop trace_first_record)
  qed
qed

theorem early_termination_witness:
  "(\<exists>log. gum_elf_module_enumerate_dynamic_entries demo_host demo_image
             (recording stop_always) ((), []) = Inr ((), log)
          \<and> map fst log = [\<lparr>dyn_type = DT_NEEDED, dyn_value = 1\<rparr>])
   \<and> (\<exists>log. gum_elf_module_enumerate_dynamic_symbols demo_host demo_image
             (recording stop_always) ((), []) = Inr ((), log)
          \<and> map fst log = [\<lparr>sym_name = 0x11015, sym_address = 0x10000, sym_type = STT_FUNC,
                             sym_bind = STB_GLOBAL, sym_section_header_index = SHN_UNDEF\<rparr>])
   \<and> (\<exists>log. gum_elf_module_enumerate_symbols demo_image
             (recording stop_always) ((), []) = Inr ((), log)
          \<and> map fst log = [\<lparr>sym_name = 0x5000, sym_address = 0x10000, sym_type = 0,
                             sym_bind = STB_LOCAL, sym_section_header_index = SHN_UNDEF\<rparr>])"
  using early_termination [OF demo_valid, of demo_host stop_always "()" stop_always "()"]
  apply (simp add: demo_entries demo_symbols demo_section_symbols demo_entsize stop_always_def
      DT_NEEDED_def STT_FUNC_def STB_GLOBAL_def STB_LOCAL_def SHN_UNDEF_def)
  apply (elim conjE exE)
  apply (intro conjI exI)
       apply assumption+
  done

section \<open>Exports and imports\<close>

lemma trace_carry_on_always: "trace carry_on_always rs () = map (\<lambda>r. (r, True)) rs"
  by (induction rs) (simp_all add: carry_on_always_def)

text \<open>
  C6. For every valid image and every callback, export enumeration is the delivery, with
  the stop protocol, of exactly those symbols of the dynamic symbol table whose section
  index is not \<open>SHN_UNDEF\<close>, whose type is \<open>STT_FUNC\<close> or \<open>STT_OBJECT\<close> and whose binding is
  \<open>STB_GLOBAL\<close> or \<open>STB_WEAK\<close>, in table order. Every record delivered comes from such a
  symbol, never from a local one, and when the callback never answers stop every such
  symbol is delivered.
\<close>

theorem exports_classified:
  assumes "is_valid_image self"
  shows "gum_elf_module_enumerate_exports h self func u
           = Inr (deliver func
                    (map export_of (filter is_export (dynamic_symbol_table h self))) u)
       \<and> (\<exists>u' log.
            gum_elf_module_enumerate_exports h self (recording func) (u, []) = Inr (u', log)
            \<and> (\<forall>r \<in> set (map fst log).
                  \<exists>s \<in> set (dynamic_symbol_table h self).
                    r = export_of s \<and> is_export s \<and> sym_bind s \<noteq> STB_LOCAL)
            \<and> (list_all snd log
                 \<longrightarrow> map fst log
                       = map export_of (filter is_export (dynamic_symbol_table h self))))"
proof (intro conjI)
  let ?exports = "map export_of (filter is_export (dynamic_symbol_table h self))"
  show "gum_elf_module_enumerate_exports h self func u = Inr (deliver func ?exports u)"
    using assms by (rule enumerate_exports_valid)
  have run: "gum_elf_module_enumerate_exports h self (recording func) (u, [])
               = Inr (deliver func ?exports u, trace func ?exports u)"
    by (simp add: enumerate_exports_valid [OF assms] deliver_recording)
  have local: "sym_bind s \<noteq> STB_LOCAL" if "is_export s" for s
    using that by (auto simp: is_export_def STB_LOCAL_def STB_GLOBAL_def STB_WEAK_def)
  have origin: "\<forall>r \<in> set (map fst (trace func ?exports u)).
                  \<exists>s \<in> set (dynamic_symbol_table h self).
                    r = export_of s \<and> is_export s \<and> sym_bind s \<noteq> STB_LOCAL"
  proof
    fix r
    assume "r \<in> set (map fst (trace func ?exports u))"
    with trace_subset [of func ?exports u] have "r \<in> set ?exports" by blast
    then obtain s where "s \<in> set (dynamic_symbol_table h self)" "is_export s" "r = export_of s"
      by auto
    with local show "\<exists>s \<in> set (dynamic_symbol_table h self).
                       r = export_of s \<and> is_export s \<and> sym_bind s \<noteq> STB_LOCAL"
      by blast
  qed
  have all: "list_all snd (trace func ?exports u)
               \<longrightarrow> map fst (trace func ?exports u) = ?exports"
    by (simp add: trace_all_carry_on)
  from run origin all
  show "\<exists>u' log.
          gum_elf_module_enumerate_exports h self (recording func) (u, []) = Inr (u', log)
          \<and> (\<forall>r \<in> set (map fst log).
                \<exists>s \<in> set (dynamic_symbol_table h self).
                  r = export_of s \<and> is_export s \<and> sym_bind s \<noteq> STB_LOCAL)
          \<and> (list_all snd log \<longrightarrow> map fst log = ?exports)"
    by blast
qed

theorem exports_classified_witness:
  "gum_elf_module_enumerate_exports demo_host demo_image (recording carry_on_always) ((), [])
     = Inr ((), [(\<lparr>exp_type = GUM_EXPORT_FUNCTION, exp_name = 0x1101a,
                    exp_address = 0x10500\<rparr>, True)])"
proof -
  have "map export_of (filter is_export (dynamic_symbol_table demo_host demo_image))
          = [\<lparr>exp_type = GUM_EXPORT_FUNCTION, exp_name = 0x1101a, exp_address = 0x10500\<rparr>]"
    by (simp add: demo_symbols is_export_def export_of_def export_type_of_def SHN_UNDEF_def
        STT_FUNC_def STT_OBJECT_def STB_GLOBAL_def STB_WEAK_def)
  with exports_classified [OF demo_valid, of demo_host "recording carry_on_always" "((), [])"]
  show ?thesis
    by (simp add: recording_def carry_on_always_def)
qed

text \<open>
  C7. For every valid image and every callback, import enumeration is the delivery, with
  the stop protocol, of exactly those symbols of the dynamic symbol table whose section
  index is \<open>SHN_UNDEF\<close> and whose type is \<open>STT_FUNC\<close> or \<open>STT_OBJECT\<close>, in table order. Every
  record delivered comes from such a symbol and carries address zero and a null module,
  and when the callback never answers stop every such symbol is delivered.
\<close>

theorem imports_classified:
  assumes "is_valid_image self"
  shows "gum_elf_module_enumerate_imports h self func u
           = Inr (deliver func
                    (map import_of (filter is_import (dynamic_symbol_table h self))) u)
       \<and> (\<exists>u' log.
            gum_elf_module_enumerate_imports h self (recording func) (u, []) = Inr (u', log)
            \<and> (\<forall>r \<in> set (map fst log).
                  imp_address r = 0 \<and> imp_module r = NULL
                  \<and> (\<exists>s \<in> set (dynamic_symbol_table h self). r = import_of s \<and> is_import s))
            \<and> (list_all snd log
                 \<longrightarrow> map fst log
                       = map import_of (filter is_import (dynamic_symbol_table h self))))"
proof (intro conjI)
  let ?imports = "map import_of (filter is_import (dynamic_symbol_table h self))"
  show "gum_elf_module_enumerate_imports h self func u = Inr (deliver func ?imports u)"
    using assms by (rule enumerate_imports_valid)
  have run: "gum_elf_module_enumerate_imports h self (recording func) (u, [])
               = Inr (deliver func ?imports u, trace func ?imports u)"
    by (simp add: enumerate_imports_valid [OF assms] deliver_recording)
  have origin: "\<forall>r \<in> set (map fst (trace func ?imports u)).
                  imp_address r = 0 \<and> imp_module r = NULL
                  \<and> (\<exists>s \<in> set (dynamic_symbol_table h self). r = import_of s \<and> is_import s)"
  proof
    fix r
    assume "r \<in> set (map fst (trace func ?imports u))"
    with trace_subset [of func ?imports u] have "r \<in> set ?imports" by blast
    then obtain s where s: "s \<in> set (dynamic_symbol_table h self)" "is_import s"
        "r = import_of s"
      by auto
    then have "imp_address r = 0 \<and> imp_module r = NULL" by (simp add: import_of_def)
    with s show "imp_address r = 0 \<and> imp_module r = NULL
        \<and> (\<exists>s \<in> set (dynamic_symbol_table h self). r = import_of s \<and> is_import s)"
      by blast
  qed
  have all: "list_all snd (trace func ?imports u)
               \<longrightarrow> map fst (trace func ?imports u) = ?imports"
    by (simp add: trace_all_carry_on)
  from run origin all
  show "\<exists>u' log.
          gum_elf_module_enumerate_imports h self (recording func) (u, []) = Inr (u', log)
          \<and> (\<forall>r \<in> set (map fst log).
                imp_address r = 0 \<and> imp_module r = NULL
                \<and> (\<exists>s \<in> set (dynamic_symbol_table h self). r = import_of s \<and> is_import s))
          \<and> (list_all snd log \<longrightarrow> map fst log = ?imports)"
    by blast
qed

theorem imports_classified_witness:
  "gum_elf_module_enumerate_imports demo_host demo_image (recording carry_on_always) ((), [])
     = Inr ((), [(\<lparr>imp_type = GUM_EXPORT_FUNCTION, imp_name = 0x11015, imp_module = NULL,
                    imp_address = 0\<rparr>, True)])"
proof -
  have "map import_of (filter is_import (dynamic_symbol_table demo_host demo_image))
          = [\<lparr>imp_type = GUM_EXPORT_FUNCTION, imp_name = 0x11015, imp_module = NULL,
              imp_address = 0\<rparr>]"
    by (simp add: demo_symbols is_import_def import_of_def export_type_of_def SHN_UNDEF_def
        STT_FUNC_def STT_OBJECT_def)
  with imports_classified [OF demo_valid, of demo_host "recording carry_on_always" "((), [])"]
  show ?thesis
    by (simp add: recording_def carry_on_always_def)
qed

section \<open>Dependencies\<close>

lemma demo_dependencies:
  "captured_strtab demo_host demo_image = 0x11000"
  "needed_dependencies demo_host demo_image = [\<lparr>dep_name = 0x11001\<rparr>, \<lparr>dep_name = 0x1100b\<rparr>]"
proof -
  show a: "captured_strtab demo_host demo_image = 0x11000"
    by (simp add: captured_strtab_def demo_entries DT_STRTAB_def GSIZE_TO_POINTER_def
        to_gsize_def gum_elf_module_resolve_virtual_address_def)
       (simp add: demo_image_def image_of_def demo_host_def)
  show "needed_dependencies demo_host demo_image
          = [\<lparr>dep_name = 0x11001\<rparr>, \<lparr>dep_name = 0x1100b\<rparr>]"
    by (simp add: needed_dependencies_def a demo_entries DT_NEEDED_def to_gsize_def)
       (simp add: demo_host_def)
qed

lemma nullstr_valid: "is_valid_image nullstr_image"
  by (simp add: is_valid_image_def nullstr_image_def image_of_def)

lemma nullstr_elf_fields:
  "elf nullstr_image = Some demo_elf" "ehdr nullstr_image = Some (gelf_getehdr demo_elf)"
  by (simp_all add: nullstr_image_def image_of_def)

lemma nullstr_entries:
  "dynamic_entry_table nullstr_host nullstr_image =
     [\<lparr>dyn_type = 1, dyn_value = 1\<rparr>, \<lparr>dyn_type = 5, dyn_value = 0\<rparr>,
      \<lparr>dyn_type = 0, dyn_value = 0\<rparr>, \<lparr>dyn_type = 0, dyn_value = 0\<rparr>,
      \<lparr>dyn_type = 0, dyn_value = 0\<rparr>, \<lparr>dyn_type = 0, dyn_value = 0\<rparr>,
      \<lparr>dyn_type = 0, dyn_value = 0\<rparr>]"
  apply (simp add: dynamic_entry_table_def find_dynamic_range_valid [OF nullstr_elf_fields]
      demo_headers PT_DYNAMIC_def PT_LOAD_def)
  apply (simp add: gum_elf_module_resolve_virtual_address_def GSIZE_TO_POINTER_def to_gsize_def
      nullstr_image_def image_of_def nullstr_host_def demo_host_def word_range_zero upt_rec
      read_Elf64_Dyn_def table_lookup_def nullstr_xwords_def)
  done

lemma nullstr_captured: "captured_strtab nullstr_host nullstr_image = NULL"
  by (simp add: captured_strtab_def nullstr_entries DT_STRTAB_def GSIZE_TO_POINTER_def
      to_gsize_def gum_elf_module_resolve_virtual_address_def NULL_def)
     (simp add: nullstr_image_def image_of_def nullstr_host_def demo_host_def)

text \<open>
  C8, as the code has it. For every valid image, dependency enumeration first walks the
  dynamic entries up to and including the first \<open>DT_STRTAB\<close> entry and captures its value,
  translated to a runtime address, as the string-table pointer. If that pointer is null,
  which it is when there is no string-table entry, no dependency is produced. Otherwise
  a second pass delivers, with the stop protocol and in on-disk order, one record for
  each \<open>DT_NEEDED\<close> entry, whose name is the pointer to that entry's value offset in the
  captured string table.
\<close>

theorem dependencies_in_order:
  assumes "is_valid_image self"
  shows "(\<exists>ctx log.
            gum_elf_module_enumerate_dynamic_entries h self (recording (gum_store_strtab h))
              (\<lparr>deps_func = func, deps_user_data = u, deps_module = self,
                deps_strtab = NULL\<rparr>, []) = Inr (ctx, log)
            \<and> map fst log = upto_first_strtab (dynamic_entry_table h self)
            \<and> deps_strtab ctx = captured_strtab h self)
       \<and> (list_ex (\<lambda>d. dyn_type d = DT_STRTAB) (dynamic_entry_table h self)
            \<or> captured_strtab h self = NULL)
       \<and> gum_elf_module_enumerate_dependencies h self func u
            = Inr (if captured_strtab h self = NULL then u
                   else deliver func (needed_dependencies h self) u)
       \<and> gum_elf_module_enumerate_dependencies h self (recording func) (u, [])
            = Inr (if captured_strtab h self = NULL then (u, [])
                   else (deliver func (needed_dependencies h self) u,
                         trace func (needed_dependencies h self) u))"
proof (intro conjI)
  let ?ctx0 = "\<lparr>deps_func = func, deps_user_data = u, deps_module = self, deps_strtab = NULL\<rparr>"
  let ?table = "dynamic_entry_table h self"
  have "gum_elf_module_enumerate_dynamic_entries h self (recording (gum_store_strtab h))
          (?ctx0, [])
        = Inr (deliver (gum_store_strtab h) ?table ?ctx0, trace (gum_store_strtab h) ?table ?ctx0)"
    by (simp add: enumerate_dynamic_entries_valid [OF assms] deliver_recording)
  moreover have "map fst (trace (gum_store_strtab h) ?table ?ctx0) = upto_first_strtab ?table"
    by (rule trace_store_strtab)
  moreover have "deps_strtab (deliver (gum_store_strtab h) ?table ?ctx0) = captured_strtab h self"
    by (simp add: deliver_store_strtab captured_strtab_def split: option.splits)
  ultimately show "\<exists>ctx log.
      gum_elf_module_enumerate_dynamic_entries h self (recording (gum_store_strtab h))
        (?ctx0, []) = Inr (ctx, log)
      \<and> map fst log = upto_first_strtab ?table
      \<and> deps_strtab ctx = captured_strtab h self"
    by blast
  show "list_ex (\<lambda>d. dyn_type d = DT_STRTAB) ?table \<or> captured_strtab h self = NULL"
  proof (cases "find (\<lambda>d. dyn_type d = DT_STRTAB) ?table")
    case None
    then show ?thesis by (simp add: captured_strtab_def)
  next
    case (Some d)
    then have "d \<in> set ?table" "dyn_type d = DT_STRTAB"
      by (auto simp: find_Some_iff)
    then show ?thesis by (auto simp: list_ex_iff)
  qed
  show "gum_elf_module_enumerate_dependencies h self func u
          = Inr (if captured_strtab h self = NULL then u
                 else deliver func (needed_dependencies h self) u)"
    using assms by (rule enumerate_dependencies_valid)
  show "gum_elf_module_enumerate_dependencies h self (recording func) (u, [])
          = Inr (if captured_strtab h self = NULL then (u, [])
                 else (deliver func (needed_dependencies h self) u,
                       trace func (needed_dependencies h self) u))"
    by (simp add: enumerate_dependencies_valid [OF assms] deliver_recording)
qed

theorem dependencies_in_order_witness:
  "gum_elf_module_enumerate_dependencies demo_host demo_image (recording carry_on_always)
       ((), [])
     = Inr ((), [(\<lparr>dep_name = 0x11001\<rparr>, True), (\<lparr>dep_name = 0x1100b\<rparr>, True)])
   \<and> c_string demo_host 16 0x11001 = Some (ascii ''libc.so.6'')
   \<and> c_string demo_host 16 0x1100b = Some (ascii ''libm.so.6'')"
  using dependencies_in_order [OF demo_valid, of demo_host carry_on_always "()"]
  by (simp add: demo_dependencies demo_strings NULL_def carry_on_always_def)

theorem dependencies_null_strtab_counterexample:
  "list_ex (\<lambda>d. dyn_type d = DT_STRTAB) (dynamic_entry_table nullstr_host nullstr_image)
   \<and> filter (\<lambda>d. dyn_type d = DT_NEEDED) (dynamic_entry_table nullstr_host nullstr_image)
       = [\<lparr>dyn_type = DT_NEEDED, dyn_value = 1\<rparr>]
   \<and> gum_elf_module_enumerate_dependencies nullstr_host nullstr_image
       (recording carry_on_always) ((), []) = Inr ((), [])"
  by (simp add: enumerate_dependencies_valid [OF nullstr_valid] nullstr_captured
      nullstr_entries DT_STRTAB_def DT_NEEDED_def)

section \<open>The preferred base address and rejected files\<close>

lemma constructed_with:
  assumes "e_type (gelf_getehdr e) = ET_EXEC \<or> e_type (gelf_getehdr e) = ET_DYN"
  shows "gum_elf_module_new_from_memory (os_with e) ''/lib/demo'' b
           = Inr (Some (image_of e b (preferred_address_loop e (e_phnum (gelf_getehdr e)) 0)))"
  using assms
  by (auto simp: gum_elf_module_new_from_memory_def gum_elf_module_constructed_def
      g_object_new_def os_with_def image_of_def elf_magic_def
      gum_elf_module_compute_preferred_address_def Let_def)

lemma preferred_address_valid:
  assumes "gum_elf_module_new_from_memory sys p b = Inr (Some m)"
  shows "\<exists>e. elf m = Some e \<and> preferred_address m = preferred_address_loop e (e_phnum (gelf_getehdr e)) 0"
  using assms
  by (auto simp: gum_elf_module_new_from_memory_def gum_elf_module_constructed_def
      gum_elf_module_compute_preferred_address_def Let_def
      split: option.splits if_splits sum.splits)

text \<open>
  What the scan of the constructor computes: the virtual address of the first program
  header whose file offset is zero, whatever its type. It is the address the
  specification names whenever every program header with file offset zero is loadable.
\<close>

lemma preferred_address_scan:
  assumes "gum_elf_module_new_from_memory sys p b = Inr (Some m)"
  shows "\<exists>e. elf m = Some e
            \<and> preferred_address m
                = (case find (\<lambda>phdr. p_offset phdr = 0) (program_headers e) of
                     None \<Rightarrow> 0
                   | Some phdr \<Rightarrow> p_vaddr phdr)"
  using preferred_address_valid [OF assms]
  by (simp add: preferred_address_loop_find program_headers_def)

lemma find_loadable_zero_offset:
  assumes "\<forall>phdr \<in> set phdrs. p_offset phdr = 0 \<longrightarrow> p_type phdr = PT_LOAD"
  shows "find (\<lambda>phdr. p_type phdr = PT_LOAD \<and> p_offset phdr = 0) phdrs
           = find (\<lambda>phdr. p_offset phdr = 0) phdrs"
  using assms by (induction phdrs) auto

lemma preferred_address_of_loadable:
  assumes "gum_elf_module_new_from_memory sys p b = Inr (Some m)"
    and "elf m = Some e"
    and "\<forall>phdr \<in> set (program_headers e). p_offset phdr = 0 \<longrightarrow> p_type phdr = PT_LOAD"
  shows "preferred_address m = spec_preferred_address e"
  using preferred_address_scan [OF assms(1)] assms(2)
  by (auto simp: spec_preferred_address_def find_loadable_zero_offset [OF assms(3)])

lemma static_constructed:
  "gum_elf_module_new_from_memory (os_with static_elf) ''/lib/demo'' 0x400000
     = Inr (Some static_image)"
proof -
  have "e_type (gelf_getehdr static_elf) = ET_EXEC" by (simp add: static_elf_def)
  then show ?thesis
    by (simp add: constructed_with preferred_address_loop_find static_image_def
        static_headers [unfolded program_headers_def])
qed

lemma stack_first_headers:
  "program_headers stack_first_elf =
     [\<lparr>p_type = PT_GNU_STACK, p_offset = 0, p_vaddr = 0, p_memsz = 0\<rparr>,
      \<lparr>p_type = PT_LOAD, p_offset = 0, p_vaddr = 0x400000, p_memsz = 0x1000\<rparr>]"
  by (simp add: program_headers_def stack_first_elf_def word_range_zero upt_rec)

text \<open>
  C2. The scan never tests the type of a program header. For the executable linked at
  0x400000 whose program headers list \<open>PT_GNU_STACK\<close> (file offset 0, virtual address 0)
  before the loadable segment, the constructor succeeds and records the preferred base
  address 0, where the first loadable segment whose file offset is zero has the virtual
  address 0x400000. The image being mapped at its link address 0x400000, the address
  translator then sends the link-time address 0x401020 to 0x801020.
\<close>

theorem preferred_address_ignores_segment_type:
  "gum_elf_module_new_from_memory (os_with stack_first_elf) ''/lib/demo'' 0x400000
     = Inr (Some (image_of stack_first_elf 0x400000 0))
   \<and> preferred_address (image_of stack_first_elf 0x400000 0) = 0
   \<and> spec_preferred_address stack_first_elf = 0x400000
   \<and> gum_elf_module_resolve_virtual_address (image_of stack_first_elf 0x400000 0) 0x401020
       = 0x801020"
proof -
  have "e_type (gelf_getehdr stack_first_elf) = ET_EXEC" by (simp add: stack_first_elf_def)
  then have "gum_elf_module_new_from_memory (os_with stack_first_elf) ''/lib/demo'' 0x400000
               = Inr (Some (image_of stack_first_elf 0x400000 0))"
    by (simp add: constructed_with preferred_address_loop_find
        stack_first_headers [unfolded program_headers_def])
  moreover have "spec_preferred_address stack_first_elf = 0x400000"
    by (simp add: spec_preferred_address_def stack_first_headers PT_GNU_STACK_def PT_LOAD_def)
  ultimately show ?thesis
    by (simp add: image_of_def gum_elf_module_resolve_virtual_address_def)
qed

text \<open>
  C9. For every file that opens, maps and parses as ELF but whose header type is neither
  \<open>ET_EXEC\<close> nor \<open>ET_DYN\<close>, the constructor returns null: no image, valid or not, reaches
  the caller.
\<close>

theorem unsupported_type_rejected:
  assumes "os_open sys p = Some bytes" "os_mmap sys bytes" "elf_memory sys bytes = Some e"
    and "e_type (gelf_getehdr e) \<noteq> ET_EXEC" "e_type (gelf_getehdr e) \<noteq> ET_DYN"
  shows "gum_elf_module_new_from_memory sys p b = Inr None"
  using assms
  by (simp add: gum_elf_module_new_from_memory_def gum_elf_module_constructed_def
      g_object_new_def Let_def)

theorem unsupported_type_rejected_witness:
  "e_type (gelf_getehdr reloc_elf) = ET_REL
   \<and> gum_elf_module_new_from_memory (os_with reloc_elf) ''/lib/demo'' 0 = Inr None"
proof -
  have "gum_elf_module_new_from_memory (os_with reloc_elf) ''/lib/demo'' 0 = Inr None"
    by (rule unsupported_type_rejected [where bytes = elf_magic and e = reloc_elf])
       (simp_all add: os_with_def elf_magic_def reloc_elf_def ET_REL_def ET_EXEC_def ET_DYN_def)
  then show ?thesis by (simp add: reloc_elf_def)
qed

section \<open>The scenario of address translation\<close>

text \<open>
  C10, as the code has it. For an image with runtime base address 0x7f0000000000 and
  preferred base address 0x400000, the address translator maps the link-time address
  0x401020 to 0x7f0000001020.
\<close>

theorem resolve_scenario:
  assumes "base_address self = 0x7f0000000000" "preferred_address self = 0x400000"
  shows "gum_elf_module_resolve_virtual_address self 0x401020 = 0x7f0000001020"
  using assms by (simp add: gum_elf_module_resolve_virtual_address_def)

theorem resolve_scenario_witness:
  "gum_elf_module_resolve_virtual_address scenario_image 0x401020 = 0x7f0000001020"
  by (rule resolve_scenario) (simp_all add: scenario_image_def image_of_def)

theorem resolve_scenario_counterexample:
  "gum_elf_module_resolve_virtual_address scenario_image 0x401020 \<noteq> 0x7f00000001020"
  by (simp add: gum_elf_module_resolve_virtual_address_def scenario_image_def image_of_def)

section \<open>The four values of the dynamic symbol table\<close>

lemma dup_entries:
  "dynamic_entry_table dup_host demo_image =
     [\<lparr>dyn_type = 4, dyn_value = 0x800\<rparr>, \<lparr>dyn_type = 4, dyn_value = 0x800\<rparr>,
      \<lparr>dyn_type = 6, dyn_value = 0x1100\<rparr>, \<lparr>dyn_type = 5, dyn_value = 0x1000\<rparr>,
      \<lparr>dyn_type = 0, dyn_value = 0\<rparr>, \<lparr>dyn_type = 0, dyn_value = 0\<rparr>,
      \<lparr>dyn_type = 0, dyn_value = 0\<rparr>]"
  apply (simp add: dynamic_entry_table_def find_dynamic_range_valid [OF demo_elf_fields]
      demo_headers PT_DYNAMIC_def PT_LOAD_def)
  apply (simp add: gum_elf_module_resolve_virtual_address_def GSIZE_TO_POINTER_def to_gsize_def
      demo_image_def image_of_def dup_host_def demo_host_def word_range_zero upt_rec
      read_Elf64_Dyn_def table_lookup_def dup_xwords_def)
  done

lemma dup_params:
  "symtab_params dup_host demo_image =
     \<lparr>pending = 0, symtab_entries = 0x11100, symtab_entry_size = 0,
      symtab_entry_count = 4, symtab_strtab = 0x11000, symtab_module = demo_image\<rparr>"
  apply (simp add: symtab_params_def dup_entries)
  apply (simp add: gum_store_symtab_params_def DT_SYMTAB_def DT_SYMENT_def DT_HASH_def
      DT_STRTAB_def NULL_def Let_def GSIZE_TO_POINTER_def to_gsize_def
      gum_elf_module_resolve_virtual_address_def)
  apply (simp add: demo_image_def image_of_def dup_host_def demo_host_def table_lookup_def
      demo_words_def)
  done

lemma dup_symbols:
  "dynamic_symbol_table dup_host demo_image =
     [\<lparr>sym_name = 0x11000, sym_address = 0x10000, sym_type = 0, sym_bind = 0,
       sym_section_header_index = 0\<rparr>,
      \<lparr>sym_name = 0x11000, sym_address = 0x10000, sym_type = 0, sym_bind = 0,
       sym_section_header_index = 0\<rparr>,
      \<lparr>sym_name = 0x11000, sym_address = 0x10000, sym_type = 0, sym_bind = 0,
       sym_section_header_index = 0\<rparr>]"
  apply (simp add: dynamic_symbol_table_def dup_params upt_rec)
  apply (simp add: dynamic_symbol_at_def read_Elf64_Sym_def symbol_details_def to_gsize_def
      gum_elf_module_resolve_virtual_address_def GELF_ST_TYPE_def GELF_ST_BIND_def Let_def)
  apply (simp add: demo_image_def image_of_def dup_host_def demo_host_def table_lookup_def
      demo_words_def demo_bytes_def demo_halves_def dup_xwords_def)
  done

text \<open>
  Where none of the four tags is repeated among the dynamic entries, the count reaches
  zero only when all four are present: with one of them absent nothing is delivered.
\<close>

lemma store_symtab_params_other:
  assumes "dyn_type d \<notin> {DT_SYMTAB, DT_SYMENT, DT_HASH, DT_STRTAB}"
  shows "gum_store_symtab_params h d ctx = (pending ctx \<noteq> 0, ctx)"
  using assms by (simp add: gum_store_symtab_params_def)

lemma store_symtab_params_tagged:
  assumes "dyn_type d \<in> {DT_SYMTAB, DT_SYMENT, DT_HASH, DT_STRTAB}"
  shows "\<exists>ctx'. gum_store_symtab_params h d ctx = (pending ctx - 1 \<noteq> 0, ctx')
               \<and> pending ctx' = pending ctx - 1"
  using assms by (auto simp: gum_store_symtab_params_def Let_def)

lemma pending_stays:
  assumes "length (filter (\<lambda>d. dyn_type d \<in> {DT_SYMTAB, DT_SYMENT, DT_HASH, DT_STRTAB}) ds)
             < unat (pending ctx)"
  shows "pending (deliver (gum_store_symtab_params h) ds ctx) \<noteq> 0"
  using assms
proof (induction ds arbitrary: ctx)
  case Nil
  then show ?case by (auto simp: unat_gt_0)
next
  case (Cons d ds)
  let ?S = "{DT_SYMTAB, DT_SYMENT, DT_HASH, DT_STRTAB}"
  show ?case
  proof (cases "dyn_type d \<in> ?S")
    case False
    with Cons.prems have less: "length (filter (\<lambda>d. dyn_type d \<in> ?S) ds) < unat (pending ctx)"
      by simp
    then have "pending ctx \<noteq> 0" by (auto simp: unat_gt_0)
    with False Cons.IH [OF less] show ?thesis
      by (simp add: store_symtab_params_other)
  next
    case True
    with Cons.prems have less: "Suc (length (filter (\<lambda>d. dyn_type d \<in> ?S) ds)) < unat (pending ctx)"
      by simp
    then have nz: "pending ctx \<noteq> 0" by (auto simp: unat_gt_0)
    obtain ctx' where step: "gum_store_symtab_params h d ctx = (pending ctx - 1 \<noteq> 0, ctx')"
        and p': "pending ctx' = pending ctx - 1"
      using store_symtab_params_tagged [OF True] by blast
    have "unat (pending ctx') = unat (pending ctx) - 1"
      using nz p' by (simp add: unat_minus_one)
    with less have less': "length (filter (\<lambda>d. dyn_type d \<in> ?S) ds) < unat (pending ctx')"
      by simp
    then have "pending ctx' \<noteq> 0" by (auto simp: unat_gt_0)
    with step p' Cons.IH [OF less'] show ?thesis by simp
  qed
qed

lemma dynamic_symbols_need_all_four:
  assumes image: "is_valid_image self"
    and once: "distinct (filter (\<lambda>t. t \<in> {DT_SYMTAB, DT_SYMENT, DT_HASH, DT_STRTAB})
                          (map dyn_type (dynamic_entry_table h self)))"
    and absent: "t \<in> {DT_SYMTAB, DT_SYMENT, DT_HASH, DT_STRTAB}"
                "t \<notin> dyn_type ` set (dynamic_entry_table h self)"
  shows "gum_elf_module_enumerate_dynamic_symbols h self (recording func) (u, []) = Inr (u, [])"
proof -
  let ?S = "{DT_SYMTAB, DT_SYMENT, DT_HASH, DT_STRTAB}"
  let ?table = "dynamic_entry_table h self"
  let ?ts = "filter (\<lambda>t. t \<in> ?S) (map dyn_type ?table)"
  have "set ?ts \<subseteq> ?S - {t}" using absent(2) by auto
  moreover have "finite (?S - {t})" by simp
  ultimately have "card (set ?ts) \<le> card (?S - {t})" by (rule card_mono [rotated])
  also have "card (?S - {t}) \<le> 3"
  proof -
    have "card ?S \<le> 4" by (simp add: card_insert_if)
    moreover have "card (?S - {t}) = card ?S - 1" using absent(1) by (simp add: card_Diff_singleton)
    ultimately show ?thesis by simp
  qed
  finally have "card (set ?ts) \<le> 3" .
  moreover have "card (set ?ts) = length ?ts" using once by (rule distinct_card)
  ultimately have "length ?ts \<le> 3" by (simp only:)
  moreover have "length (filter (\<lambda>d. dyn_type d \<in> ?S) ?table) = length ?ts"
    by (simp add: filter_map comp_def)
  ultimately have "length (filter (\<lambda>d. dyn_type d \<in> ?S) ?table) < unat (4 :: 32 word)"
    by simp
  then have "pending (symtab_params h self) \<noteq> 0"
    unfolding symtab_params_def by (intro pending_stays) simp
  then have "dynamic_symbol_table h self = []"
    by (simp add: dynamic_symbol_table_def)
  then show ?thesis
    by (simp add: enumerate_dynamic_symbols_valid [OF image])
qed

text \<open>
  C4. The pass over the dynamic entries counts down from four at every entry tagged
  \<open>DT_SYMTAB\<close>, \<open>DT_SYMENT\<close>, \<open>DT_HASH\<close> or \<open>DT_STRTAB\<close>, repeated or not. On the image whose
  dynamic entries list the hash table twice and have no \<open>DT_SYMENT\<close> entry, the count
  reaches zero all the same, and the enumeration invokes the callback three times, each
  time on the entry at the start of the symbol table, the entry size having stayed zero.
\<close>

theorem dynamic_symbols_repeated_tag:
  "list_ex (\<lambda>d. dyn_type d = DT_SYMENT) (dynamic_entry_table dup_host demo_image) = False
   \<and> gum_elf_module_enumerate_dynamic_symbols dup_host demo_image
       (recording carry_on_always) ((), [])
     = Inr ((), [(\<lparr>sym_name = 0x11000, sym_address = 0x10000, sym_type = 0, sym_bind = 0,
                    sym_section_header_index = 0\<rparr>, True),
                 (\<lparr>sym_name = 0x11000, sym_address = 0x10000, sym_type = 0, sym_bind = 0,
                    sym_section_header_index = 0\<rparr>, True),
                 (\<lparr>sym_name = 0x11000, sym_address = 0x10000, sym_type = 0, sym_bind = 0,
                    sym_section_header_index = 0\<rparr>, True)])"
  by (simp add: enumerate_dynamic_symbols_valid [OF demo_valid] recording_def
      carry_on_always_def dup_symbols dup_entries DT_SYMENT_def)

end
